theory Spec2Isabelle
  imports Main "HOL-Library.Multiset" "HOL-Library.List_Lexorder"
begin

section \<open>Strings\<close>

text \<open>
  A JavaScript string is the sequence of its UTF-16 code units, each a natural number.
  \<open>js\<close> turns an ASCII literal into such a sequence.
\<close>

type_synonym jsstr = "nat list"

definition js :: "string \<Rightarrow> jsstr" where
  "js s = map of_char s"

text \<open>\<open>String.prototype.startsWith\<close>, \<open>endsWith\<close> and \<open>includes\<close>.\<close>

fun startsWith :: "jsstr \<Rightarrow> jsstr \<Rightarrow> bool" where
  "startsWith s [] = True"
| "startsWith [] (p # ps) = False"
| "startsWith (c # cs) (p # ps) = (c = p \<and> startsWith cs ps)"

definition endsWith :: "jsstr \<Rightarrow> jsstr \<Rightarrow> bool" where
  "endsWith s suffix = startsWith (rev s) (rev suffix)"

fun includes_str :: "jsstr \<Rightarrow> jsstr \<Rightarrow> bool" where
  "includes_str [] sub = (sub = [])"
| "includes_str (c # cs) sub = (startsWith (c # cs) sub \<or> includes_str cs sub)"

text \<open>
  \<open>String.prototype.toLowerCase\<close> on the letters A to Z. The case mapping of the code
  units beyond ASCII is not modelled: they are kept.
\<close>

definition toLowerCase :: "jsstr \<Rightarrow> jsstr" where
  "toLowerCase s = map (\<lambda>c. if 65 \<le> c \<and> c \<le> 90 then c + 32 else c) s"

text \<open>\<open>Array.prototype.join\<close> on an array of strings.\<close>

fun join :: "jsstr list \<Rightarrow> jsstr \<Rightarrow> jsstr" where
  "join [] sep = []"
| "join [x] sep = x"
| "join (x # y # ys) sep = x @ sep @ join (y # ys) sep"

text \<open>
  The decimal text of a non-negative integer, as \<open>ToString\<close> gives it for the counts
  of this program (all below \<open>10^21\<close>).
\<close>

fun showNat :: "nat \<Rightarrow> jsstr" where
  "showNat n = (if n < 10 then [48 + n] else showNat (n div 10) @ [48 + n mod 10])"

declare showNat.simps [simp del]

section \<open>Paths (Node's \<open>path\<close> module, POSIX flavour)\<close>

text \<open>
  \<open>path.basename(p)\<close>: trailing slashes are dropped, and what follows the last
  remaining slash is returned.
\<close>

definition basename :: "jsstr \<Rightarrow> jsstr" where
  "basename p = rev (takeWhile (\<lambda>c. c \<noteq> 47) (dropWhile (\<lambda>c. c = 47) (rev p)))"

text \<open>
  \<open>path.extname(p)\<close>: from the last dot of the last path component to its end; empty
  when the component has no dot, starts with its only dot, or is \<open>..\<close>.
\<close>

definition extname :: "jsstr \<Rightarrow> jsstr" where
  "extname p =
     (let b = basename p;
          e = rev (takeWhile (\<lambda>c. c \<noteq> 46) (rev b));
          stem = rev (drop 1 (dropWhile (\<lambda>c. c \<noteq> 46) (rev b)))
      in if 46 \<notin> set b then []
         else if stem = [] then []
         else if b = [46, 46] then []
         else 46 # e)"

text \<open>\<open>path.dirname(p)\<close>.\<close>

definition dirname :: "jsstr \<Rightarrow> jsstr" where
  "dirname p =
     (if p = [] then [46]
      else
        let hasRoot = (hd p = 47);
            body = tl p;
            r = dropWhile (\<lambda>c. c \<noteq> 47) (dropWhile (\<lambda>c. c = 47) (rev body))
        in if r = [] then (if hasRoot then [47] else [46])
           else if hasRoot \<and> length r = 1 then [47, 47]
           else hd p # rev (tl r))"

section \<open>Categorising files\<close>

record categories =
  javascript :: "jsstr list"
  typescript :: "jsstr list"
  react :: "jsstr list"
  vue :: "jsstr list"
  angular :: "jsstr list"
  styles :: "jsstr list"
  html :: "jsstr list"
  images :: "jsstr list"
  config :: "jsstr list"
  documentation :: "jsstr list"
  tests :: "jsstr list"
  other :: "jsstr list"

definition emptyCategories :: categories where
  "emptyCategories =
     \<lparr> javascript = [], typescript = [], react = [], vue = [], angular = [], styles = [],
       html = [], images = [], config = [], documentation = [], tests = [], other = [] \<rparr>"

text \<open>The body of the \<open>forEach\<close> of \<open>categorizeFiles\<close>: one file is pushed on one bucket.\<close>

definition categorizeFile :: "categories \<Rightarrow> jsstr \<Rightarrow> categories" where
  "categorizeFile cats file =
     (let fileName = basename file;
          extension = toLowerCase (extname file);
          relativePath = file
      in
      if extension = js ''.js'' \<and> \<not> includes_str fileName (js ''.test.'')
           \<and> \<not> includes_str fileName (js ''.spec.'')
      then cats\<lparr> javascript := javascript cats @ [relativePath] \<rparr>
      else if extension = js ''.ts'' \<and> \<not> includes_str fileName (js ''.test.'')
           \<and> \<not> includes_str fileName (js ''.spec.'')
      then cats\<lparr> typescript := typescript cats @ [relativePath] \<rparr>
      else if extension = js ''.jsx'' \<or> extension = js ''.tsx''
      then cats\<lparr> react := react cats @ [relativePath] \<rparr>
      else if extension = js ''.vue''
      then cats\<lparr> vue := vue cats @ [relativePath] \<rparr>
      else if extension = js ''.css'' \<or> extension = js ''.scss'' \<or> extension = js ''.sass''
           \<or> extension = js ''.less''
      then cats\<lparr> categories.styles := categories.styles cats @ [relativePath] \<rparr>
      else if extension = js ''.html''
      then cats\<lparr> html := html cats @ [relativePath] \<rparr>
      else if extension \<in> set
           [js ''.png'', js ''.jpg'', js ''.jpeg'', js ''.gif'', js ''.svg'', js ''.webp'']
      then cats\<lparr> images := images cats @ [relativePath] \<rparr>
      else if fileName \<in> set
           [js ''package.json'', js ''package-lock.json'', js ''.env'', js ''tsconfig.json'',
            js ''webpack.config.js'']
      then cats\<lparr> categories.config := categories.config cats @ [relativePath] \<rparr>
      else if extension \<in> set [js ''.md'', js ''.txt'', js ''.rst'']
      then cats\<lparr> documentation := documentation cats @ [relativePath] \<rparr>
      else if includes_str fileName (js ''.test.'') \<or> includes_str fileName (js ''.spec.'')
           \<or> extension = js ''.test.js'' \<or> extension = js ''.spec.js''
      then cats\<lparr> tests := tests cats @ [relativePath] \<rparr>
      else cats\<lparr> other := other cats @ [relativePath] \<rparr>)"

definition categorizeFiles :: "jsstr list \<Rightarrow> categories" where
  "categorizeFiles files = foldl categorizeFile emptyCategories files"

text \<open>The twelve buckets of a result, in the order the source declares them.\<close>

definition buckets :: "categories \<Rightarrow> jsstr list list" where
  "buckets c =
     [javascript c, typescript c, react c, vue c, angular c, categories.styles c, html c,
      images c, categories.config c, documentation c, tests c, other c]"

section \<open>Important files\<close>

record important =
  entryPoints :: "jsstr list"
  components :: "jsstr list"
  pages :: "jsstr list"
  api :: "jsstr list"
  config :: "jsstr list"
  styles :: "jsstr list"

definition emptyImportant :: important where
  "emptyImportant =
     \<lparr> entryPoints = [], components = [], pages = [], api = [], config = [], styles = [] \<rparr>"

text \<open>The line terminators, which the dot of a regular expression does not match.\<close>

definition lineTerminator :: "nat \<Rightarrow> bool" where
  "lineTerminator c = (c = 10 \<or> c = 13 \<or> c = 8232 \<or> c = 8233)"

text \<open>\<open>fileName.match(/^[A-Z].*\.(jsx|tsx)$/)\<close>.\<close>

definition matchesComponent :: "jsstr \<Rightarrow> bool" where
  "matchesComponent fileName =
     (case fileName of
        [] \<Rightarrow> False
      | c # cs \<Rightarrow>
          65 \<le> c \<and> c \<le> 90 \<and>
          (drop (length cs - 4) cs = js ''.jsx'' \<or> drop (length cs - 4) cs = js ''.tsx'') \<and>
          list_all (\<lambda>d. \<not> lineTerminator d) (take (length cs - 4) cs))"

text \<open>\<open>fileName.match(/^page\.(js|ts|jsx|tsx)$/)\<close>.\<close>

definition matchesPage :: "jsstr \<Rightarrow> bool" where
  "matchesPage fileName =
     (fileName \<in> set [js ''page.js'', js ''page.ts'', js ''page.jsx'', js ''page.tsx''])"

text \<open>
  The body of the \<open>forEach\<close> of \<open>identifyImportantFiles\<close>: six independent tests, each
  pushing the file on its own list.
\<close>

definition identifyImportantFile :: "important \<Rightarrow> jsstr \<Rightarrow> important" where
  "identifyImportantFile imp0 file =
     (let fileName = basename file;
          filePath = toLowerCase file;
          imp1 = (if fileName \<in> set [js ''index.html'', js ''index.js'', js ''index.ts'',
                      js ''App.js'', js ''App.tsx'', js ''main.js'', js ''main.ts'']
                  then imp0\<lparr> entryPoints := entryPoints imp0 @ [file] \<rparr> else imp0);
          imp2 = (if matchesComponent fileName
                  then imp1\<lparr> components := components imp1 @ [file] \<rparr> else imp1);
          imp3 = (if includes_str filePath (js ''/pages/'') \<or> includes_str filePath (js ''/views/'')
                     \<or> matchesPage fileName
                  then imp2\<lparr> pages := pages imp2 @ [file] \<rparr> else imp2);
          imp4 = (if includes_str filePath (js ''/api/'') \<or> includes_str filePath (js ''/routes/'')
                     \<or> includes_str fileName (js ''route'')
                  then imp3\<lparr> api := api imp3 @ [file] \<rparr> else imp3);
          imp5 = (if fileName \<in> set [js ''package.json'', js ''.env'', js ''tsconfig.json'',
                      js ''next.config.js'', js ''vite.config.js'']
                  then imp4\<lparr> important.config := important.config imp4 @ [file] \<rparr> else imp4)
      in if fileName = js ''index.css'' \<or> fileName = js ''App.css'' \<or> fileName = js ''globals.css''
         then imp5\<lparr> important.styles := important.styles imp5 @ [file] \<rparr> else imp5)"

definition identifyImportantFiles :: "jsstr list \<Rightarrow> important" where
  "identifyImportantFiles files = foldl identifyImportantFile emptyImportant files"

section \<open>The host: file system and library functions\<close>

text \<open>
  What a path leads to: a regular file (with its text, or \<open>None\<close> when it cannot be
  read), a directory with its entries in the order \<open>readdirSync\<close> lists them, a directory
  that cannot be listed, or an entry whose \<open>statSync\<close> fails (a dangling link).
\<close>

datatype node =
    File "jsstr option"
  | Dir "(jsstr \<times> node) list"
  | Locked
  | Broken

datatype json =
    JNull
  | JBool bool
  | JNum int
  | JStr jsstr
  | JArr "json list"
  | JObj "(jsstr \<times> json) list"

datatype error = ENOENT | ENOTDIR | EACCES | EISDIR | SyntaxError | TypeError | Error jsstr

text \<open>
  The program reaches its environment through \<open>fs\<close>, \<open>path.join\<close>, \<open>path.relative\<close>
  and \<open>JSON.parse\<close>. The last three are library functions and are parameters here:
  \<open>resolve\<close> gives what a path leads to (\<open>None\<close>: nothing there), \<open>JSON_parse\<close> returns
  \<open>None\<close> where the library throws a \<open>SyntaxError\<close>, and a \<open>JObj\<close> lists the own
  properties of the parsed object, each name once, in the order \<open>Object.keys\<close> gives.
\<close>

record host =
  resolve :: "jsstr \<Rightarrow> node option"
  path_join :: "jsstr \<Rightarrow> jsstr \<Rightarrow> jsstr"
  path_relative :: "jsstr \<Rightarrow> jsstr \<Rightarrow> jsstr"
  JSON_parse :: "jsstr \<Rightarrow> json option"

fun existsSync :: "node option \<Rightarrow> bool" where
  "existsSync None = False"
| "existsSync (Some Broken) = False"
| "existsSync (Some n) = True"

fun readdirSync :: "node option \<Rightarrow> error + jsstr list" where
  "readdirSync None = Inl ENOENT"
| "readdirSync (Some (Dir items)) = Inr (map fst items)"
| "readdirSync (Some (File t)) = Inl ENOTDIR"
| "readdirSync (Some Locked) = Inl EACCES"
| "readdirSync (Some Broken) = Inl ENOENT"

fun readFileSync :: "node option \<Rightarrow> error + jsstr" where
  "readFileSync None = Inl ENOENT"
| "readFileSync (Some (File (Some t))) = Inr t"
| "readFileSync (Some (File None)) = Inl EACCES"
| "readFileSync (Some (Dir items)) = Inl EISDIR"
| "readFileSync (Some Locked) = Inl EISDIR"
| "readFileSync (Some Broken) = Inl ENOENT"

section \<open>Walking the project\<close>

definition ignoreList :: "jsstr list" where
  "ignoreList = [js ''node_modules'', js ''.git'', js ''dist'', js ''build'', js ''.next'', js ''.nuxt'']"

text \<open>
  \<open>findAllFiles\<close>: a directory that cannot be listed gives no file (the \<open>catch\<close>); an
  entry whose \<open>statSync\<close> throws ends the loop of its directory, the files found before
  it being kept. The entry \<open>item\<close> of a listed directory is what
  \<open>path.join(folderPath, item)\<close> leads to.
\<close>

fun findAllFiles :: "host \<Rightarrow> jsstr \<Rightarrow> node option \<Rightarrow> jsstr list"
  and scanItems :: "host \<Rightarrow> jsstr \<Rightarrow> (jsstr \<times> node) list \<Rightarrow> jsstr list" where
  "findAllFiles h folderPath (Some (Dir items)) = scanItems h folderPath items"
| "findAllFiles h folderPath (Some (File t)) = []"
| "findAllFiles h folderPath (Some Locked) = []"
| "findAllFiles h folderPath (Some Broken) = []"
| "findAllFiles h folderPath None = []"
| "scanItems h folderPath [] = []"
| "scanItems h folderPath ((item, n) # rest) =
     (if item \<in> set ignoreList then scanItems h folderPath rest
      else
        let fullPath = path_join h folderPath item in
        case n of
          Broken \<Rightarrow> []
        | File t \<Rightarrow> fullPath # scanItems h folderPath rest
        | Dir sub \<Rightarrow> findAllFiles h fullPath (Some n) @ scanItems h folderPath rest
        | Locked \<Rightarrow> findAllFiles h fullPath (Some n) @ scanItems h folderPath rest)"

section \<open>The dependency manifest\<close>

record dependencyRecord =
  dependencies :: json
  devDependencies :: json
  scripts :: json
  type :: json

text \<open>Truthiness of a parsed value, and of a value that may be \<open>undefined\<close> (\<open>None\<close>).\<close>

fun truthy :: "json \<Rightarrow> bool" where
  "truthy JNull = False"
| "truthy (JBool b) = b"
| "truthy (JNum n) = (n \<noteq> 0)"
| "truthy (JStr t) = (t \<noteq> [])"
| "truthy (JArr xs) = True"
| "truthy (JObj kvs) = True"

fun truthyOpt :: "json option \<Rightarrow> bool" where
  "truthyOpt None = False"
| "truthyOpt (Some v) = truthy v"

text \<open>\<open>v || d\<close>.\<close>

definition orElse :: "json option \<Rightarrow> json \<Rightarrow> json" where
  "orElse v d = (case v of None \<Rightarrow> d | Some x \<Rightarrow> if truthy x then x else d)"

text \<open>
  Reading \<open>packageJson.dependencies\<close>, \<open>.devDependencies\<close>, \<open>.scripts\<close> or \<open>.type\<close> of a
  value other than \<open>null\<close>: the own property of an object, and \<open>undefined\<close> on every
  other value (no string, number, boolean, array or \<open>Object.prototype\<close> has a property of
  one of these four names). On \<open>null\<close> the read throws a \<open>TypeError\<close>.
\<close>

fun manifestField :: "json \<Rightarrow> jsstr \<Rightarrow> json option" where
  "manifestField (JObj kvs) k = map_of kvs k"
| "manifestField v k = None"

definition defaultRecord :: dependencyRecord where
  "defaultRecord =
     \<lparr> dependencies = JObj [], devDependencies = JObj [], scripts = JObj [],
       type = JStr (js ''commonjs'') \<rparr>"

text \<open>The \<open>try\<close> block of \<open>analyzeDependencies\<close>, with what it throws.\<close>

definition readPackageJson :: "host \<Rightarrow> jsstr \<Rightarrow> error + dependencyRecord" where
  "readPackageJson h projectPath =
     (let packageJsonPath = path_join h projectPath (js ''package.json'') in
      case readFileSync (resolve h packageJsonPath) of
        Inl e \<Rightarrow> Inl e
      | Inr text \<Rightarrow>
          (case JSON_parse h text of
             None \<Rightarrow> Inl SyntaxError
           | Some packageJson \<Rightarrow>
               if packageJson = JNull then Inl TypeError
               else
                 Inr \<lparr> dependencies =
                         orElse (manifestField packageJson (js ''dependencies'')) (JObj []),
                       devDependencies =
                         orElse (manifestField packageJson (js ''devDependencies'')) (JObj []),
                       scripts = orElse (manifestField packageJson (js ''scripts'')) (JObj []),
                       type =
                         orElse (manifestField packageJson (js ''type''))
                           (JStr (js ''commonjs'')) \<rparr>))"

text \<open>\<open>analyzeDependencies\<close>: the \<open>catch\<close> turns every error into the default record.\<close>

definition analyzeDependencies :: "host \<Rightarrow> jsstr \<Rightarrow> dependencyRecord" where
  "analyzeDependencies h projectPath =
     (case readPackageJson h projectPath of Inl e \<Rightarrow> defaultRecord | Inr r \<Rightarrow> r)"

section \<open>Technology detection\<close>

text \<open>
  The own enumerable properties a spread copies: those of an object, the elements of an
  array and the code units of a string under their indices, nothing for the rest.
\<close>

fun ownProps :: "json \<Rightarrow> (jsstr \<times> json) list" where
  "ownProps (JObj kvs) = kvs"
| "ownProps (JArr xs) = zip (map showNat [0..<length xs]) xs"
| "ownProps (JStr t) = zip (map showNat [0..<length t]) (map (\<lambda>c. JStr [c]) t)"
| "ownProps v = []"

text \<open>
  \<open>{ ...a, ...b }\<close>, as the map from names to values: the program only reads properties
  of the merged object, and none of the names it reads is inherited from
  \<open>Object.prototype\<close>.
\<close>

definition spread2 :: "json \<Rightarrow> json \<Rightarrow> (jsstr \<rightharpoonup> json)" where
  "spread2 a b = map_of (ownProps a) ++ map_of (ownProps b)"

text \<open>\<open>if (dependencies.name)\<close>: the property is there and its value is truthy.\<close>

definition has :: "(jsstr \<rightharpoonup> json) \<Rightarrow> string \<Rightarrow> bool" where
  "has deps name = truthyOpt (deps (js name))"

definition detectFramework :: "(jsstr \<rightharpoonup> json) \<Rightarrow> jsstr" where
  "detectFramework deps =
     (if has deps ''next'' then js ''Next.js''
      else if has deps ''nuxt'' then js ''Nuxt.js''
      else if has deps ''vue'' then js ''Vue.js''
      else if has deps ''@angular/core'' then js ''Angular''
      else if has deps ''react'' then js ''React''
      else if has deps ''express'' then js ''Express.js''
      else js ''Vanilla JavaScript'')"

definition detectLanguage :: "categories \<Rightarrow> jsstr" where
  "detectLanguage fileTypes =
     (if length (typescript fileTypes) > 0 then js ''TypeScript''
      else if length (javascript fileTypes) > 0 then js ''JavaScript''
      else js ''Unknown'')"

definition detectStyling :: "categories \<Rightarrow> (jsstr \<rightharpoonup> json) \<Rightarrow> jsstr" where
  "detectStyling fileTypes deps =
     (if has deps ''tailwindcss'' then js ''Tailwind CSS''
      else if has deps ''styled-components'' then js ''Styled Components''
      else if has deps ''@emotion/react'' then js ''Emotion''
      else if length (categories.styles fileTypes) > 0 then js ''CSS/SCSS''
      else js ''Unknown'')"

definition detectBundler :: "(jsstr \<rightharpoonup> json) \<Rightarrow> jsstr" where
  "detectBundler deps =
     (if has deps ''vite'' then js ''Vite''
      else if has deps ''webpack'' then js ''Webpack''
      else if has deps ''parcel'' then js ''Parcel''
      else js ''Unknown'')"

definition detectTesting :: "(jsstr \<rightharpoonup> json) \<Rightarrow> jsstr" where
  "detectTesting deps =
     (if has deps ''jest'' then js ''Jest''
      else if has deps ''vitest'' then js ''Vitest''
      else if has deps ''cypress'' then js ''Cypress''
      else if has deps ''@testing-library/react'' then js ''Testing Library''
      else js ''None detected'')"

text \<open>
  \<open>hasReact\<close>, \<open>hasVue\<close> and \<open>hasAngular\<close> are not booleans in the source: \<open>a || deps.x\<close>
  is \<open>true\<close> or the value of the property, which may be \<open>undefined\<close> (\<open>None\<close>).
\<close>

record technologyProfile =
  framework :: jsstr
  language :: jsstr
  styling :: jsstr
  bundler :: jsstr
  testing :: jsstr
  hasTypeScript :: bool
  hasReact :: "json option"
  hasVue :: "json option"
  hasAngular :: "json option"

definition detectTechnology :: "categories \<Rightarrow> dependencyRecord \<Rightarrow> technologyProfile" where
  "detectTechnology fileTypes deprec =
     (let deps = spread2 (dependencies deprec) (devDependencies deprec) in
      \<lparr> framework = detectFramework deps,
        language = detectLanguage fileTypes,
        styling = detectStyling fileTypes deps,
        bundler = detectBundler deps,
        testing = detectTesting deps,
        hasTypeScript = (length (typescript fileTypes) > 0
                         \<or> list_ex (\<lambda>f. endsWith f (js ''.tsx'')) (react fileTypes)),
        hasReact = (if length (react fileTypes) > 0 then Some (JBool True) else deps (js ''react'')),
        hasVue = (if length (vue fileTypes) > 0 then Some (JBool True) else deps (js ''vue'')),
        hasAngular = deps (js ''@angular/core'') \<rparr>)"

section \<open>Project structure\<close>

record structureSummary =
  directories :: "jsstr list"
  hasSrcFolder :: bool
  hasPublicFolder :: bool
  hasComponentsFolder :: bool
  hasPagesFolder :: bool
  hasApiFolder :: bool

text \<open>
  The set of directories is kept as the list of the directory of each file; the default
  \<open>sort\<close> orders strings by their code units.
\<close>

definition analyzeStructure :: "host \<Rightarrow> jsstr list \<Rightarrow> jsstr \<Rightarrow> structureSummary" where
  "analyzeStructure h files projectPath =
     (let dirs = filter (\<lambda>dir. dir \<noteq> js ''.'')
                   (map (\<lambda>file. dirname (path_relative h projectPath file)) files) in
      \<lparr> directories = sort (remdups dirs),
        hasSrcFolder = (js ''src'' \<in> set dirs),
        hasPublicFolder = (js ''public'' \<in> set dirs),
        hasComponentsFolder = list_ex (\<lambda>dir. includes_str dir (js ''components'')) dirs,
        hasPagesFolder = list_ex (\<lambda>dir. includes_str dir (js ''pages'')) dirs,
        hasApiFolder = list_ex (\<lambda>dir. includes_str dir (js ''api'')) dirs \<rparr>)"

section \<open>The analysis record\<close>

text \<open>
  The renderer tests \<open>analysis.technology\<close>, \<open>.structure\<close>, \<open>.fileTypes\<close>,
  \<open>.importantFiles\<close> and \<open>.dependencies\<close> before it reads them, so each part may be
  missing (\<open>None\<close>); \<open>analyzeCodebase\<close> fills them all.
\<close>

record analysis =
  projectName :: jsstr
  totalFiles :: nat
  fileTypes :: "categories option"
  importantFiles :: "important option"
  dependencies :: "dependencyRecord option"
  technology :: "technologyProfile option"
  "structure" :: "structureSummary option"

definition analyzeCodebase :: "host \<Rightarrow> jsstr \<Rightarrow> analysis" where
  "analyzeCodebase h projectPath =
     (let allFiles = findAllFiles h projectPath (resolve h projectPath);
          fileTypes = categorizeFiles allFiles;
          importantFiles = identifyImportantFiles allFiles;
          dependencies = analyzeDependencies h projectPath
      in \<lparr> projectName = basename projectPath,
           totalFiles = length allFiles,
           fileTypes = Some fileTypes,
           importantFiles = Some importantFiles,
           dependencies = Some dependencies,
           technology = Some (detectTechnology fileTypes dependencies),
           structure = Some (analyzeStructure h allFiles projectPath) \<rparr>)"

section \<open>Regular expressions and \<open>String.prototype.replace\<close>\<close>

text \<open>
  Every pattern of the renderer is a sequence of single characters: a literal character,
  or the dot, which matches one code unit that is no line terminator.
\<close>

datatype atom = Lit nat | AnyChar

text \<open>A regular expression literal whose characters are all escaped or plain.\<close>

definition lit :: "string \<Rightarrow> atom list" where
  "lit s = map Lit (js s)"

text \<open>
  \<open>new RegExp(text, 'g')\<close> for the texts the renderer builds: letters, braces (literal, as
  no digit follows an opening one) and dots.
\<close>

definition regexOf :: "jsstr \<Rightarrow> atom list" where
  "regexOf text = map (\<lambda>c. if c = 46 then AnyChar else Lit c) text"

text \<open>The pattern matched at the start of a text: what follows the match.\<close>

fun matchAt :: "atom list \<Rightarrow> jsstr \<Rightarrow> jsstr option" where
  "matchAt [] s = Some s"
| "matchAt (a # as) [] = None"
| "matchAt (Lit x # as) (c # cs) = (if c = x then matchAt as cs else None)"
| "matchAt (AnyChar # as) (c # cs) = (if lineTerminator c then None else matchAt as cs)"

text \<open>
  The replacement text of one match (\<open>GetSubstitution\<close>, for a pattern without groups):
  \<open>$$\<close> is a dollar, \<open>$&\<close> the matched text, \<open>$`\<close> the text before the match, \<open>$'\<close> the
  text after it; every other character stands for itself.
\<close>

fun expand :: "jsstr \<Rightarrow> jsstr \<Rightarrow> jsstr \<Rightarrow> jsstr \<Rightarrow> jsstr" where
  "expand [] matched left right = []"
| "expand [c] matched left right = [c]"
| "expand (c # d # r) matched left right =
     (if c = 36 \<and> d = 36 then 36 # expand r matched left right
      else if c = 36 \<and> d = 38 then matched @ expand r matched left right
      else if c = 36 \<and> d = 96 then left @ expand r matched left right
      else if c = 36 \<and> d = 39 then right @ expand r matched left right
      else c # expand (d # r) matched left right)"

text \<open>
  \<open>text.replace(/pattern/g, replacement)\<close>, from a position of the text on: \<open>seen\<close> is
  the text before that position, its last character first. Matches are found from left
  to right and do not overlap; the empty pattern matches before every character and at
  the end.
\<close>

function replaceFrom :: "atom list \<Rightarrow> jsstr \<Rightarrow> jsstr \<Rightarrow> jsstr \<Rightarrow> jsstr" where
  "replaceFrom pat rep seen [] = (if pat = [] then expand rep [] (rev seen) [] else [])"
| "replaceFrom pat rep seen (c # cs) =
     (if pat = [] then expand rep [] (rev seen) (c # cs) @ c # replaceFrom pat rep (c # seen) cs
      else
        case matchAt pat (c # cs) of
          None \<Rightarrow> c # replaceFrom pat rep (c # seen) cs
        | Some rest \<Rightarrow>
            expand rep (take (length pat) (c # cs)) (rev seen) rest
            @ replaceFrom pat rep (rev (take (length pat) (c # cs)) @ seen) rest)"
  by pat_completeness auto

lemma matchAt_drop:
  "matchAt pat s = Some rest \<Longrightarrow> rest = drop (length pat) s \<and> length pat \<le> length s"
  by (induction pat s rule: matchAt.induct) (auto split: if_splits)

termination replaceFrom
proof (relation "measure (\<lambda>(pat, rep, seen, t). length t)", goal_cases)
  case 1 show ?case by simp
next
  case 2 then show ?case by simp
next
  case 3 then show ?case by simp
next
  case (4 pat rep seen c cs rest)
  from matchAt_drop[OF 4(2)] 4(1) show ?case by (cases pat) auto
qed

declare replaceFrom.simps [simp del]

definition replace :: "atom list \<Rightarrow> jsstr \<Rightarrow> jsstr \<Rightarrow> jsstr" where
  "replace pat rep text = replaceFrom pat rep [] text"

section \<open>The prompt generator\<close>

text \<open>
  A template is written as its pieces: \<open>Text\<close> for plain text and \<open>Hole\<close> for each group
  \<open>{{...}}\<close>; \<open>flatten\<close> glues the pieces into the string.
\<close>

datatype piece = Text jsstr | Hole jsstr

fun pieceText :: "piece \<Rightarrow> jsstr" where
  "pieceText (Text t) = t"
| "pieceText (Hole h) = h"

definition flatten :: "piece list \<Rightarrow> jsstr" where
  "flatten ps = concat (map pieceText ps)"

text \<open>
  The template of \<open>getDefaultTemplate\<close>, section by section. The first and the fourth
  section take the pieces that stand at their placeholders, so that the same lines give
  the template and a rendered document.
\<close>

definition overviewLines ::
    "piece \<Rightarrow> piece \<Rightarrow> piece \<Rightarrow> piece \<Rightarrow> piece \<Rightarrow> piece \<Rightarrow> piece \<Rightarrow> piece list" where
  "overviewLines name files fw lang sty bun tst = [
      Text (js ''# '' @ [55358, 56598] @ js '' AI CODEBASE ANALYSIS\<newline>''),
      Text (js ''\<newline>''),
      Text (js ''## '' @ [55357, 56522] @ js '' PROJECT OVERVIEW\<newline>''),
      Text (js ''- **Project Name**: ''), name, Text (js ''\<newline>''),
      Text (js ''- **Total Files**: ''), files, Text (js ''\<newline>''),
      Text (js ''- **Main Framework**: ''), fw, Text (js ''\<newline>''),
      Text (js ''- **Language**: ''), lang, Text (js ''\<newline>''),
      Text (js ''- **Styling**: ''), sty, Text (js ''\<newline>''),
      Text (js ''- **Bundler**: ''), bun, Text (js ''\<newline>''),
      Text (js ''- **Testing**: ''), tst, Text (js ''\<newline>''),
      Text (js ''\<newline>'')]"

definition stackLines :: "piece list" where
  "stackLines = [
      Text (js ''## '' @ [55356, 57303, 65039] @ js '' TECHNOLOGY STACK\<newline>''),
      Text (js ''- **TypeScript**: ''), Hole (js ''{{technology.hasTypeScript ? 'Yes' : 'No'}}''), Text (js ''\<newline>''),
      Text (js ''- **React**: ''), Hole (js ''{{technology.hasReact ? 'Yes' : 'No'}}''), Text (js ''\<newline>''),
      Text (js ''- **Vue**: ''), Hole (js ''{{technology.hasVue ? 'Yes' : 'No'}}''), Text (js ''\<newline>''),
      Text (js ''- **Angular**: ''), Hole (js ''{{technology.hasAngular ? 'Yes' : 'No'}}''), Text (js ''\<newline>''),
      Text (js ''\<newline>'')]"

definition structureLines :: "piece list" where
  "structureLines = [
      Text (js ''## '' @ [55357, 56513] @ js '' PROJECT STRUCTURE\<newline>''),
      Text (js ''- **Has src/ folder**: ''), Hole (js ''{{structure.hasSrcFolder ? 'Yes' : 'No'}}''), Text (js ''\<newline>''),
      Text (js ''- **Has public/ folder**: ''), Hole (js ''{{structure.hasPublicFolder ? 'Yes' : 'No'}}''), Text (js ''\<newline>''),
      Text (js ''- **Has components/ folder**: ''), Hole (js ''{{structure.hasComponentsFolder ? 'Yes' : 'No'}}''), Text (js ''\<newline>''),
      Text (js ''- **Has pages/ folder**: ''), Hole (js ''{{structure.hasPagesFolder ? 'Yes' : 'No'}}''), Text (js ''\<newline>''),
      Text (js ''- **Has api/ folder**: ''), Hole (js ''{{structure.hasApiFolder ? 'Yes' : 'No'}}''), Text (js ''\<newline>''),
      Text (js ''\<newline>'')]"

definition breakdownLines ::
    "piece \<Rightarrow> piece \<Rightarrow> piece \<Rightarrow> piece \<Rightarrow> piece \<Rightarrow> piece \<Rightarrow> piece \<Rightarrow> piece \<Rightarrow> piece \<Rightarrow> piece
     \<Rightarrow> piece list" where
  "breakdownLines nJavascript nTypescript nReact nVue nStyles nHtml nImages nConfig nDocumentation
       nTests = [
      Text (js ''## '' @ [55357, 56514] @ js '' FILE BREAKDOWN\<newline>''),
      Text (js ''- **JavaScript Files**: ''), nJavascript, Text (js ''\<newline>''),
      Text (js ''- **TypeScript Files**: ''), nTypescript, Text (js ''\<newline>''),
      Text (js ''- **React Components**: ''), nReact, Text (js ''\<newline>''),
      Text (js ''- **Vue Components**: ''), nVue, Text (js ''\<newline>''),
      Text (js ''- **Style Files**: ''), nStyles, Text (js ''\<newline>''),
      Text (js ''- **HTML Files**: ''), nHtml, Text (js ''\<newline>''),
      Text (js ''- **Images**: ''), nImages, Text (js ''\<newline>''),
      Text (js ''- **Config Files**: ''), nConfig, Text (js ''\<newline>''),
      Text (js ''- **Documentation**: ''), nDocumentation, Text (js ''\<newline>''),
      Text (js ''- **Tests**: ''), nTests, Text (js ''\<newline>''),
      Text (js ''\<newline>'')]"

definition importantLines :: "piece list" where
  "importantLines = [
      Text (js ''## '' @ [55357, 56593] @ js '' IMPORTANT FILES\<newline>''),
      Text (js ''**Entry Points**: ''), Hole (js ''{{importantFiles.entryPoints.join(', ') || 'None found'}}''), Text (js ''\<newline>''),
      Text (js ''**Components**: ''), Hole (js ''{{importantFiles.components.slice(0, 10).join(', ') || 'None found'}}''), Text (js ''\<newline>''),
      Text (js ''**Pages**: ''), Hole (js ''{{importantFiles.pages.slice(0, 10).join(', ') || 'None found'}}''), Text (js ''\<newline>''),
      Text (js ''**API Files**: ''), Hole (js ''{{importantFiles.api.slice(0, 10).join(', ') || 'None found'}}''), Text (js ''\<newline>''),
      Text (js ''**Config Files**: ''), Hole (js ''{{importantFiles.config.join(', ') || 'None found'}}''), Text (js ''\<newline>''),
      Text (js ''\<newline>'')]"

definition dependencyLines :: "piece list" where
  "dependencyLines = [
      Text (js ''## '' @ [55357, 56550] @ js '' DEPENDENCIES\<newline>''),
      Text (js ''**Main Dependencies**: ''), Hole (js ''{{Object.keys(dependencies.dependencies).slice(0, 10).join(', ') || 'None'}}''), Text (js ''\<newline>''),
      Text (js ''**Dev Dependencies**: ''), Hole (js ''{{Object.keys(dependencies.devDependencies).slice(0, 10).join(', ') || 'None'}}''), Text (js ''\<newline>''),
      Text (js ''\<newline>'')]"

definition requestLines :: "piece list" where
  "requestLines = [
      Text (js ''## '' @ [55357, 56481] @ js '' USER REQUEST\<newline>''),
      Hole (js ''{{userQuestion || '[Please specify what you need help with]'}}''), Text (js ''\<newline>''),
      Text (js ''\<newline>''),
      Text (js ''## '' @ [55356, 57263] @ js '' WHAT I NEED HELP WITH\<newline>''),
      Text (js ''Please analyze the codebase structure above and help me with the requested task. Consider the technology stack and project structure when providing solutions.\<newline>''),
      Text (js ''\<newline>''),
      Text (js ''**Examples of what you can help with:**\<newline>''),
      Text (js ''- Adding new features or components\<newline>''),
      Text (js ''- Fixing bugs or issues\<newline>''),
      Text (js ''- Optimizing performance\<newline>''),
      Text (js ''- Improving code structure\<newline>''),
      Text (js ''- Adding tests\<newline>''),
      Text (js ''- Setting up new tools or libraries\<newline>''),
      Text (js ''- Code refactoring\<newline>''),
      Text (js ''- Documentation improvements\<newline>'')]"

definition defaultPieces :: "piece list" where
  "defaultPieces =
     overviewLines
       (Hole (js ''{{projectName}}''))
       (Hole (js ''{{totalFiles}}''))
       (Hole (js ''{{technology.framework}}''))
       (Hole (js ''{{technology.language}}''))
       (Hole (js ''{{technology.styling}}''))
       (Hole (js ''{{technology.bundler}}''))
       (Hole (js ''{{technology.testing}}''))
     @ stackLines @ structureLines
     @ breakdownLines
       (Hole (js ''{{fileTypes.javascript.length}}''))
       (Hole (js ''{{fileTypes.typescript.length}}''))
       (Hole (js ''{{fileTypes.react.length}}''))
       (Hole (js ''{{fileTypes.vue.length}}''))
       (Hole (js ''{{fileTypes.styles.length}}''))
       (Hole (js ''{{fileTypes.html.length}}''))
       (Hole (js ''{{fileTypes.images.length}}''))
       (Hole (js ''{{fileTypes.config.length}}''))
       (Hole (js ''{{fileTypes.documentation.length}}''))
       (Hole (js ''{{fileTypes.tests.length}}''))
     @ importantLines @ dependencyLines @ requestLines"

definition getDefaultTemplate :: jsstr where
  "getDefaultTemplate = flatten defaultPieces"

text \<open>\<open>flag ? 'Yes' : 'No'\<close>.\<close>

definition yesNo :: "bool \<Rightarrow> jsstr" where
  "yesNo flag = (if flag then js ''Yes'' else js ''No'')"

text \<open>\<open>text || fallback\<close> on strings: the empty string is the only falsy one.\<close>

definition orText :: "jsstr \<Rightarrow> jsstr \<Rightarrow> jsstr" where
  "orText text fallback = (if text = [] then fallback else text)"

text \<open>The block \<open>if (analysis.technology) { ... }\<close> of \<open>populateTemplate\<close>.\<close>

definition fillTechnology :: "technologyProfile \<Rightarrow> jsstr \<Rightarrow> jsstr" where
  "fillTechnology tech t0 =
     (let t1 = replace (lit ''{{technology.framework}}'') (orText (framework tech) (js ''Unknown'')) t0;
          t2 = replace (lit ''{{technology.language}}'') (orText (language tech) (js ''Unknown'')) t1;
          t3 = replace (lit ''{{technology.styling}}'') (orText (styling tech) (js ''Unknown'')) t2;
          t4 = replace (lit ''{{technology.bundler}}'') (orText (bundler tech) (js ''Unknown'')) t3;
          t5 = replace (lit ''{{technology.testing}}'') (orText (testing tech) (js ''Unknown'')) t4;
          t6 = replace (lit ''{{technology.hasTypeScript}}'') (yesNo (hasTypeScript tech)) t5;
          t7 = replace (lit ''{{technology.hasReact}}'') (yesNo (truthyOpt (hasReact tech))) t6;
          t8 = replace (lit ''{{technology.hasVue}}'') (yesNo (truthyOpt (hasVue tech))) t7
      in replace (lit ''{{technology.hasAngular}}'') (yesNo (truthyOpt (hasAngular tech))) t8)"

text \<open>The block \<open>if (analysis.structure) { ... }\<close>.\<close>

definition fillStructure :: "structureSummary \<Rightarrow> jsstr \<Rightarrow> jsstr" where
  "fillStructure st t0 =
     (let t1 = replace (lit ''{{structure.hasSrcFolder}}'') (yesNo (hasSrcFolder st)) t0;
          t2 = replace (lit ''{{structure.hasPublicFolder}}'') (yesNo (hasPublicFolder st)) t1;
          t3 = replace (lit ''{{structure.hasComponentsFolder}}'') (yesNo (hasComponentsFolder st)) t2;
          t4 = replace (lit ''{{structure.hasPagesFolder}}'') (yesNo (hasPagesFolder st)) t3
      in replace (lit ''{{structure.hasApiFolder}}'') (yesNo (hasApiFolder st)) t4)"

text \<open>
  The block \<open>if (analysis.fileTypes) { ... }\<close>: one pass for each key of the record, in the
  order \<open>Object.keys\<close> lists them, replacing \<open>{{fileTypes.KEY.length}}\<close> by the length of
  the bucket.
\<close>

definition fileTypeEntries :: "categories \<Rightarrow> (string \<times> jsstr list) list" where
  "fileTypeEntries c =
     [(''javascript'', javascript c), (''typescript'', typescript c), (''react'', react c),
      (''vue'', vue c), (''angular'', angular c), (''styles'', categories.styles c),
      (''html'', html c), (''images'', images c), (''config'', categories.config c),
      (''documentation'', documentation c), (''tests'', tests c), (''other'', other c)]"

definition fillFileType :: "jsstr \<Rightarrow> string \<times> jsstr list \<Rightarrow> jsstr" where
  "fillFileType t entry =
     (let placeholder = js ''{{fileTypes.'' @ js (fst entry) @ js ''.length}}'';
          val = length (snd entry)
      in replace (regexOf placeholder) (showNat val) t)"

definition fillFileTypes :: "categories \<Rightarrow> jsstr \<Rightarrow> jsstr" where
  "fillFileTypes c t0 = foldl fillFileType t0 (fileTypeEntries c)"

text \<open>
  The block \<open>if (analysis.importantFiles) { ... }\<close>: one pass for each role, replacing
  \<open>{{importantFiles.ROLE}}\<close> by the joined base names of its files, or by \<open>None found\<close>.
\<close>

definition importantEntries :: "important \<Rightarrow> (string \<times> jsstr list) list" where
  "importantEntries i =
     [(''entryPoints'', entryPoints i), (''components'', components i), (''pages'', pages i),
      (''api'', api i), (''config'', important.config i), (''styles'', important.styles i)]"

definition fillImportant :: "jsstr \<Rightarrow> string \<times> jsstr list \<Rightarrow> jsstr" where
  "fillImportant t entry =
     (let placeholder = js ''{{importantFiles.'' @ js (fst entry) @ js ''}}'';
          files = snd entry;
          fileNames = map basename files
      in replace (regexOf placeholder) (orText (join fileNames (js '', '')) (js ''None found'')) t)"

definition fillImportantFiles :: "important \<Rightarrow> jsstr \<Rightarrow> jsstr" where
  "fillImportantFiles i t0 = foldl fillImportant t0 (importantEntries i)"

text \<open>
  The block \<open>if (analysis.dependencies) { ... }\<close>. The two regular expressions are those of
  the source, character by character: each has two apostrophes on either side of the
  comma. \<open>Object.keys\<close> lists the names of the own properties.
\<close>

definition objectKeys :: "json \<Rightarrow> jsstr list" where
  "objectKeys v = map fst (ownProps v)"

definition dependenciesPattern :: "atom list" where
  "dependenciesPattern =
     lit ''{{Object.keys(dependencies.dependencies).slice(0, 10).join('' @ map Lit [39, 39]
     @ lit '', '' @ map Lit [39, 39] @ lit '') || 'None'}}''"

definition devDependenciesPattern :: "atom list" where
  "devDependenciesPattern =
     lit ''{{Object.keys(dependencies.devDependencies).slice(0, 10).join('' @ map Lit [39, 39]
     @ lit '', '' @ map Lit [39, 39] @ lit '') || 'None'}}''"

definition fillDependencies :: "dependencyRecord \<Rightarrow> jsstr \<Rightarrow> jsstr" where
  "fillDependencies d t0 =
     (let deps = orElse (Some (dependencyRecord.dependencies d)) (JObj []);
          devDeps = orElse (Some (devDependencies d)) (JObj []);
          t1 = replace dependenciesPattern
                 (orText (join (take 10 (objectKeys deps)) (js '', '')) (js ''None'')) t0
      in replace devDependenciesPattern
           (orText (join (take 10 (objectKeys devDeps)) (js '', '')) (js ''None'')) t1)"

definition populateTemplate :: "jsstr \<Rightarrow> analysis \<Rightarrow> jsstr \<Rightarrow> jsstr" where
  "populateTemplate template a userQuestion =
     (let t1 = replace (lit ''{{projectName}}'') (orText (projectName a) (js ''Unknown'')) template;
          t2 = replace (lit ''{{totalFiles}}'') (showNat (totalFiles a)) t1;
          t3 = replace (lit ''{{userQuestion}}'') userQuestion t2;
          t4 = (case technology a of None \<Rightarrow> t3 | Some tech \<Rightarrow> fillTechnology tech t3);
          t5 = (case structure a of None \<Rightarrow> t4 | Some st \<Rightarrow> fillStructure st t4);
          t6 = (case fileTypes a of None \<Rightarrow> t5 | Some c \<Rightarrow> fillFileTypes c t5);
          t7 = (case importantFiles a of None \<Rightarrow> t6 | Some i \<Rightarrow> fillImportantFiles i t6)
      in case analysis.dependencies a of None \<Rightarrow> t7 | Some d \<Rightarrow> fillDependencies d t7)"

text \<open>
  The names every object inherits from \<open>Object.prototype\<close>: a property read with one of
  them finds a function (or the prototype itself), not \<open>undefined\<close>.
\<close>

definition objectPrototypeNames :: "jsstr list" where
  "objectPrototypeNames =
     [js ''constructor'', js ''__defineGetter__'', js ''__defineSetter__'', js ''hasOwnProperty'',
      js ''__lookupGetter__'', js ''__lookupSetter__'', js ''isPrototypeOf'',
      js ''propertyIsEnumerable'', js ''toString'', js ''valueOf'', js ''__proto__'',
      js ''toLocaleString'']"

text \<open>
  \<open>generatePrompt\<close>. \<open>templates\<close> holds the own properties of \<open>this.templates\<close>, the files
  of the templates directory. An inherited name gives a value that is no string, and
  \<open>populateTemplate\<close> throws a \<open>TypeError\<close> at its first \<open>replace\<close>.
\<close>

definition generatePrompt ::
    "(jsstr \<rightharpoonup> jsstr) \<Rightarrow> analysis \<Rightarrow> jsstr \<Rightarrow> jsstr \<Rightarrow> error + jsstr" where
  "generatePrompt templates a userQuestion templateType =
     (case templates templateType of
        Some t \<Rightarrow> Inr (populateTemplate (orText t getDefaultTemplate) a userQuestion)
      | None \<Rightarrow>
          if templateType \<in> set objectPrototypeNames then Inl TypeError
          else Inr (populateTemplate getDefaultTemplate a userQuestion))"

text \<open>The four entries of \<open>taskSpecificInstructions\<close>.\<close>

definition taskSpecificInstructions :: "(jsstr \<times> jsstr) list" where
  "taskSpecificInstructions =
     [(js ''feature'', concat [
      js ''\<newline>'',
      js ''## '' @ [55357, 56960] @ js '' FEATURE DEVELOPMENT INSTRUCTIONS\<newline>'',
      js ''- Consider the existing component structure and patterns\<newline>'',
      js ''- Follow the established coding conventions\<newline>'',
      js ''- Ensure compatibility with the current technology stack\<newline>'',
      js ''- Add appropriate tests if testing framework is available\<newline>'',
      js ''- Update documentation if needed\<newline>'']),
      (js ''bugfix'', concat [
      js ''\<newline>'',
      js ''## '' @ [55357, 56347] @ js '' BUG FIXING INSTRUCTIONS\<newline>'',
      js ''- Analyze the error or issue carefully\<newline>'',
      js ''- Check for similar patterns in existing code\<newline>'',
      js ''- Ensure the fix doesn't break existing functionality\<newline>'',
      js ''- Consider edge cases and error handling\<newline>'',
      js ''- Test the fix thoroughly\<newline>'']),
      (js ''optimization'', concat [
      js ''\<newline>'',
      js ''## '' @ [9889] @ js '' OPTIMIZATION INSTRUCTIONS\<newline>'',
      js ''- Focus on performance bottlenecks\<newline>'',
      js ''- Consider bundle size and loading times\<newline>'',
      js ''- Look for code duplication and refactoring opportunities\<newline>'',
      js ''- Optimize for the detected bundler and framework\<newline>'',
      js ''- Maintain code readability and maintainability\<newline>'']),
      (js ''refactor'', concat [
      js ''\<newline>'',
      js ''## '' @ [55357, 56615] @ js '' REFACTORING INSTRUCTIONS\<newline>'',
      js ''- Maintain existing functionality\<newline>'',
      js ''- Improve code structure and organization\<newline>'',
      js ''- Follow best practices for the technology stack\<newline>'',
      js ''- Ensure backward compatibility\<newline>'',
      js ''- Update related documentation\<newline>''])]"

text \<open>
  \<open>generateSpecializedPrompt\<close>. \<open>taskSpecificInstructions[taskType] || ''\<close> finds an own
  entry, or a member of \<open>Object.prototype\<close>, whose text in a string concatenation is
  left to the engine (\<open>nativeText\<close>), or nothing.
\<close>

definition generateSpecializedPrompt ::
    "(jsstr \<rightharpoonup> jsstr) \<Rightarrow> (jsstr \<Rightarrow> jsstr) \<Rightarrow> analysis \<Rightarrow> jsstr \<Rightarrow> jsstr \<Rightarrow> error + jsstr" where
  "generateSpecializedPrompt templates nativeText a taskType description =
     (case generatePrompt templates a description (js ''default'') of
        Inl e \<Rightarrow> Inl e
      | Inr basePrompt \<Rightarrow>
          (let instructions =
                 (case map_of taskSpecificInstructions taskType of
                    Some text \<Rightarrow> text
                  | None \<Rightarrow>
                      if taskType \<in> set objectPrototypeNames then nativeText taskType else [])
           in Inr (basePrompt @ instructions)))"

section \<open>The entry point\<close>

text \<open>
  \<open>analyzeAndGeneratePrompt\<close>: the analysis and the prompt of its result. The file it
  writes and the time stamp are left out.
\<close>

definition analyzeAndGeneratePrompt ::
    "host \<Rightarrow> (jsstr \<rightharpoonup> jsstr) \<Rightarrow> jsstr \<Rightarrow> jsstr \<Rightarrow> jsstr \<Rightarrow> error + analysis \<times> jsstr" where
  "analyzeAndGeneratePrompt h templates projectPath userQuestion templateType =
     (if \<not> existsSync (resolve h projectPath)
      then Inl (Error (js ''Project path does not exist: '' @ projectPath))
      else
        let a = analyzeCodebase h projectPath in
        case generatePrompt templates a userQuestion templateType of
          Inl e \<Rightarrow> Inl e
        | Inr prompt \<Rightarrow> Inr (a, prompt))"

section \<open>The renderer as a list of passes\<close>

text \<open>
  \<open>populateTemplate\<close> is a sequence of global replacements. The lists below give, block by
  block, the pattern and the replacement text of each, in the order of the source.
\<close>

definition runPasses :: "(atom list \<times> jsstr) list \<Rightarrow> jsstr \<Rightarrow> jsstr" where
  "runPasses passes t = foldl (\<lambda>t pass. replace (fst pass) (snd pass) t) t passes"

definition basePasses :: "analysis \<Rightarrow> jsstr \<Rightarrow> (atom list \<times> jsstr) list" where
  "basePasses a userQuestion =
     [(lit ''{{projectName}}'', orText (projectName a) (js ''Unknown'')),
      (lit ''{{totalFiles}}'', showNat (totalFiles a)),
      (lit ''{{userQuestion}}'', userQuestion)]"

definition technologyPasses :: "technologyProfile \<Rightarrow> (atom list \<times> jsstr) list" where
  "technologyPasses tech =
     [(lit ''{{technology.framework}}'', orText (framework tech) (js ''Unknown'')),
      (lit ''{{technology.language}}'', orText (language tech) (js ''Unknown'')),
      (lit ''{{technology.styling}}'', orText (styling tech) (js ''Unknown'')),
      (lit ''{{technology.bundler}}'', orText (bundler tech) (js ''Unknown'')),
      (lit ''{{technology.testing}}'', orText (testing tech) (js ''Unknown'')),
      (lit ''{{technology.hasTypeScript}}'', yesNo (hasTypeScript tech)),
      (lit ''{{technology.hasReact}}'', yesNo (truthyOpt (hasReact tech))),
      (lit ''{{technology.hasVue}}'', yesNo (truthyOpt (hasVue tech))),
      (lit ''{{technology.hasAngular}}'', yesNo (truthyOpt (hasAngular tech)))]"

definition structurePasses :: "structureSummary \<Rightarrow> (atom list \<times> jsstr) list" where
  "structurePasses st =
     [(lit ''{{structure.hasSrcFolder}}'', yesNo (hasSrcFolder st)),
      (lit ''{{structure.hasPublicFolder}}'', yesNo (hasPublicFolder st)),
      (lit ''{{structure.hasComponentsFolder}}'', yesNo (hasComponentsFolder st)),
      (lit ''{{structure.hasPagesFolder}}'', yesNo (hasPagesFolder st)),
      (lit ''{{structure.hasApiFolder}}'', yesNo (hasApiFolder st))]"

definition fileTypePass :: "string \<times> jsstr list \<Rightarrow> atom list \<times> jsstr" where
  "fileTypePass entry =
     (regexOf (js ''{{fileTypes.'' @ js (fst entry) @ js ''.length}}''), showNat (length (snd entry)))"

definition importantPass :: "string \<times> jsstr list \<Rightarrow> atom list \<times> jsstr" where
  "importantPass entry =
     (regexOf (js ''{{importantFiles.'' @ js (fst entry) @ js ''}}''),
      orText (join (map basename (snd entry)) (js '', '')) (js ''None found''))"

definition dependencyPasses :: "dependencyRecord \<Rightarrow> (atom list \<times> jsstr) list" where
  "dependencyPasses d =
     [(dependenciesPattern,
       orText (join (take 10 (objectKeys (orElse (Some (dependencyRecord.dependencies d)) (JObj []))))
                 (js '', '')) (js ''None'')),
      (devDependenciesPattern,
       orText (join (take 10 (objectKeys (orElse (Some (devDependencies d)) (JObj [])))) (js '', ''))
         (js ''None''))]"

fun whenPresent :: "('a \<Rightarrow> 'b list) \<Rightarrow> 'a option \<Rightarrow> 'b list" where
  "whenPresent f None = []"
| "whenPresent f (Some x) = f x"

definition allPasses :: "analysis \<Rightarrow> jsstr \<Rightarrow> (atom list \<times> jsstr) list" where
  "allPasses a userQuestion =
     basePasses a userQuestion
     @ whenPresent technologyPasses (technology a)
     @ whenPresent structurePasses (structure a)
     @ whenPresent (\<lambda>c. map fileTypePass (fileTypeEntries c)) (fileTypes a)
     @ whenPresent (\<lambda>i. map importantPass (importantEntries i)) (importantFiles a)
     @ whenPresent dependencyPasses (analysis.dependencies a)"

section \<open>Templates whose braces all open a placeholder\<close>

text \<open>
  A text is \<open>clean\<close> when it has neither an opening brace nor a dollar sign. A piece is
  well formed when a \<open>Text\<close> has no opening brace and a \<open>Hole\<close> is two opening braces
  followed by a non-empty text without one.
\<close>

definition clean :: "jsstr \<Rightarrow> bool" where
  "clean t = (123 \<notin> set t \<and> 36 \<notin> set t)"

fun wfPiece :: "piece \<Rightarrow> bool" where
  "wfPiece (Text t) = (123 \<notin> set t)"
| "wfPiece (Hole h) =
     (case h of
        a # b # body \<Rightarrow> a = 123 \<and> b = 123 \<and> body \<noteq> [] \<and> 123 \<notin> set body
      | _ \<Rightarrow> False)"

text \<open>A pattern that begins with two literal opening braces.\<close>

fun bracePat :: "atom list \<Rightarrow> bool" where
  "bracePat (Lit a # Lit b # p) = (a = 123 \<and> b = 123)"
| "bracePat p = False"

text \<open>
  A pattern against a placeholder: it matches the whole of it (\<open>Exact\<close>), it fails inside
  it (\<open>Clash\<close>), or one of the two ends before the other (\<open>Unsettled\<close>).
\<close>

datatype verdict = Exact | Clash | Unsettled

fun fit :: "atom list \<Rightarrow> jsstr \<Rightarrow> verdict" where
  "fit [] [] = Exact"
| "fit [] (c # cs) = Unsettled"
| "fit (a # as) [] = Unsettled"
| "fit (Lit x # as) (c # cs) = (if c = x then fit as cs else Clash)"
| "fit (AnyChar # as) (c # cs) = (if lineTerminator c then Clash else fit as cs)"

text \<open>
  What a list of passes makes of one piece: a text stays, a placeholder becomes the
  replacement of the first pass that matches it. \<open>None\<close> when a pass is unsettled or a
  replacement that is used is not clean.
\<close>

fun run :: "(atom list \<times> jsstr) list \<Rightarrow> piece \<Rightarrow> piece option" where
  "run [] p = Some p"
| "run (pass # rest) (Text t) = Some (Text t)"
| "run (pass # rest) (Hole h) =
     (case fit (fst pass) h of
        Exact \<Rightarrow> if clean (snd pass) then Some (Text (snd pass)) else None
      | Clash \<Rightarrow> run rest (Hole h)
      | Unsettled \<Rightarrow> None)"

text \<open>
  A piece is settled for an analysis and a question when it is well formed and the passes
  of the renderer come to a result on it: a text, a placeholder that no pattern matches
  and that stays, or a placeholder that one pattern matches whole and whose replacement
  has neither an opening brace nor a dollar sign.
\<close>

definition settled :: "analysis \<Rightarrow> jsstr \<Rightarrow> piece \<Rightarrow> bool" where
  "settled a userQuestion p = (wfPiece p \<and> run (allPasses a userQuestion) p \<noteq> None)"

section \<open>The bucket of a file\<close>

text \<open>
  The index, in \<open>buckets\<close>, of the bucket that \<open>categorizeFile\<close> pushes a file on: the same
  chain of tests, giving the position instead of the updated record.
\<close>

definition bucketOf :: "jsstr \<Rightarrow> nat" where
  "bucketOf file =
     (let fileName = basename file;
          extension = toLowerCase (extname file)
      in
      if extension = js ''.js'' \<and> \<not> includes_str fileName (js ''.test.'')
           \<and> \<not> includes_str fileName (js ''.spec.'') then 0
      else if extension = js ''.ts'' \<and> \<not> includes_str fileName (js ''.test.'')
           \<and> \<not> includes_str fileName (js ''.spec.'') then 1
      else if extension = js ''.jsx'' \<or> extension = js ''.tsx'' then 2
      else if extension = js ''.vue'' then 3
      else if extension = js ''.css'' \<or> extension = js ''.scss'' \<or> extension = js ''.sass''
           \<or> extension = js ''.less'' then 5
      else if extension = js ''.html'' then 6
      else if extension \<in> set
           [js ''.png'', js ''.jpg'', js ''.jpeg'', js ''.gif'', js ''.svg'', js ''.webp''] then 7
      else if fileName \<in> set
           [js ''package.json'', js ''package-lock.json'', js ''.env'', js ''tsconfig.json'',
            js ''webpack.config.js''] then 8
      else if extension \<in> set [js ''.md'', js ''.txt'', js ''.rst''] then 9
      else if includes_str fileName (js ''.test.'') \<or> includes_str fileName (js ''.spec.'')
           \<or> extension = js ''.test.js'' \<or> extension = js ''.spec.js'' then 10
      else 11)"

text \<open>Every path of a bucket belongs there.\<close>

definition placed :: "categories \<Rightarrow> bool" where
  "placed c = (\<forall>i < 12. \<forall>p \<in> set (buckets c ! i). bucketOf p = i)"


text \<open>An analysis record with all its parts.\<close>

abbreviation full :: "jsstr \<Rightarrow> nat \<Rightarrow> categories \<Rightarrow> important \<Rightarrow> dependencyRecord \<Rightarrow> technologyProfile \<Rightarrow> structureSummary \<Rightarrow> analysis" where
  "full n k c i d tech st \<equiv> \<lparr>projectName = n, totalFiles = k, fileTypes = Some c, importantFiles = Some i,
          dependencies = Some d, technology = Some tech, structure = Some st\<rparr>"


section \<open>Example hosts\<close>

text \<open>
  \<open>plainJoin\<close> is \<open>path.join\<close> on two plain components. The hosts below are a project
  directory without any entry, a file system without anything, and a project whose
  manifest is there but cannot be read or parsed.
\<close>

definition plainJoin :: "jsstr \<Rightarrow> jsstr \<Rightarrow> jsstr" where
  "plainJoin a b = a @ [47] @ b"

definition emptyHost :: host where
  "emptyHost =
     \<lparr> resolve = (\<lambda>p. if p = js ''/tmp/empty'' then Some (Dir []) else None),
       path_join = plainJoin,
       path_relative = (\<lambda>from to. drop (length from + 1) to),
       JSON_parse = (\<lambda>t. None) \<rparr>"

definition nowhereHost :: host where
  "nowhereHost =
     \<lparr> resolve = (\<lambda>p. None),
       path_join = plainJoin,
       path_relative = (\<lambda>from to. drop (length from + 1) to),
       JSON_parse = (\<lambda>t. None) \<rparr>"

definition vanillaProfile :: technologyProfile where
  "vanillaProfile =
     \<lparr> framework = js ''Vanilla JavaScript'', language = js ''Unknown'', styling = js ''Unknown'',
       bundler = js ''Unknown'', testing = js ''None detected'', hasTypeScript = False,
       hasReact = None, hasVue = None, hasAngular = None \<rparr>"

definition noDirectories :: structureSummary where
  "noDirectories =
     \<lparr> directories = [], hasSrcFolder = False, hasPublicFolder = False,
       hasComponentsFolder = False, hasPagesFolder = False, hasApiFolder = False \<rparr>"

definition brokenManifestHost :: "jsstr option \<Rightarrow> host" where
  "brokenManifestHost content =
     \<lparr> resolve = (\<lambda>p. if p = js ''/app'' then Some (Dir [(js ''package.json'', File content)])
                       else if p = js ''/app/package.json'' then Some (File content) else None),
       path_join = plainJoin,
       path_relative = (\<lambda>from to. drop (length from + 1) to),
       JSON_parse = (\<lambda>t. None) \<rparr>"

text \<open>
  A project with the single file \<open>pages/a$$b.js\<close>, and a manifest record that declares
  \<open>next\<close> (with a version text given as parameter) and \<open>react\<close>.
\<close>

definition siteHost :: host where
  "siteHost =
     \<lparr> resolve = (\<lambda>p. if p = js ''/site''
                       then Some (Dir [(js ''pages'', Dir [(js ''a$$b.js'', File (Some []))])])
                       else None),
       path_join = plainJoin,
       path_relative = (\<lambda>from to. drop (length from + 1) to),
       JSON_parse = (\<lambda>t. None) \<rparr>"

text \<open>
  A project with the pages \<open>home.js\<close> and \<open>about.js\<close>, and a project whose manifest
  parses to an object with a \<open>name\<close> of its own.
\<close>

definition blogHost :: host where
  "blogHost =
     \<lparr> resolve = (\<lambda>p. if p = js ''/blog''
                       then Some (Dir [(js ''pages'', Dir [(js ''home.js'', File (Some [])),
                                                          (js ''about.js'', File (Some []))])])
                       else None),
       path_join = plainJoin,
       path_relative = (\<lambda>from to. drop (length from + 1) to),
       JSON_parse = (\<lambda>t. None) \<rparr>"

definition namedManifest :: json where
  "namedManifest = JObj [(js ''name'', JStr (js ''other-name'')), (js ''version'', JStr (js ''1.0.0''))]"

definition namedManifestHost :: host where
  "namedManifestHost =
     \<lparr> resolve = (\<lambda>p. if p = js ''/home/user/my-app''
                       then Some (Dir [(js ''package.json'', File (Some (js ''manifest'')))])
                       else if p = js ''/home/user/my-app/package.json''
                       then Some (File (Some (js ''manifest'')))
                       else None),
       path_join = plainJoin,
       path_relative = (\<lambda>from to. drop (length from + 1) to),
       JSON_parse = (\<lambda>t. if t = js ''manifest'' then Some namedManifest else None) \<rparr>"

definition nextAndReact :: "jsstr \<Rightarrow> dependencyRecord" where
  "nextAndReact nextVersion =
     \<lparr> dependencyRecord.dependencies =
         JObj [(js ''next'', JStr nextVersion), (js ''react'', JStr (js ''^18.2.0''))],
       devDependencies = JObj [], scripts = JObj [], type = JStr (js ''commonjs'') \<rparr>"

section \<open>Precedence as a table\<close>

text \<open>
  The precedence of frameworks in the words of the specification: the names in their
  order, each with its label; the first name that is present decides, and the fallback
  label stands when none is.
\<close>

definition frameworkTable :: "(string \<times> string) list" where
  "frameworkTable =
     [(''next'', ''Next.js''), (''nuxt'', ''Nuxt.js''), (''vue'', ''Vue.js''),
      (''@angular/core'', ''Angular''), (''react'', ''React''), (''express'', ''Express.js'')]"

definition firstPresent :: "(jsstr \<rightharpoonup> json) \<Rightarrow> jsstr" where
  "firstPresent deps =
     (case find (\<lambda>entry. has deps (fst entry)) frameworkTable of
        Some entry \<Rightarrow> js (snd entry)
      | None \<Rightarrow> js ''Vanilla JavaScript'')"

section \<open>Lemmas on the categoriser\<close>

lemma if_chain: "(P \<Longrightarrow> R x k) \<Longrightarrow> (\<not> P \<Longrightarrow> R y l) \<Longrightarrow> R (if P then x else y) (if P then k else l)"
  by simp

lemma if_chain1: "(P \<Longrightarrow> R x) \<Longrightarrow> (\<not> P \<Longrightarrow> R y) \<Longrightarrow> R (if P then x else y)"
  by simp

lemma bucketOf_range: "bucketOf f < 12 \<and> bucketOf f \<noteq> 4"
  unfolding bucketOf_def Let_def
  by (intro if_chain1[where R = "\<lambda>k. k < 12 \<and> k \<noteq> 4"]) simp_all

lemma length_buckets: "length (buckets c) = 12"
  by (simp add: buckets_def)

lemma buckets_categorizeFile:
  "buckets (categorizeFile c f) = (buckets c)[bucketOf f := buckets c ! bucketOf f @ [f]]"
  unfolding bucketOf_def categorizeFile_def Let_def
  by (intro if_chain[where R = "\<lambda>r k. buckets r = (buckets c)[k := buckets c ! k @ [f]]"])
     (simp_all add: buckets_def)

lemma mset_concat_push:
  "k < length xs \<Longrightarrow> mset (concat (xs[k := xs ! k @ [f]])) = add_mset f (mset (concat xs))"
proof (induction xs arbitrary: k)
  case Nil then show ?case by simp
next
  case (Cons x xs) then show ?case by (cases k) auto
qed

lemma placed_step: assumes "placed c" shows "placed (categorizeFile c f)"
proof -
  have k: "bucketOf f < length (buckets c)" using bucketOf_range[of f] by (simp add: length_buckets)
  show ?thesis
    unfolding placed_def
  proof (intro allI impI ballI)
    fix i p assume i: "i < 12" and p: "p \<in> set (buckets (categorizeFile c f) ! i)"
    show "bucketOf p = i"
    proof (cases "i = bucketOf f")
      case True
      with p k have "p \<in> set (buckets c ! i) \<or> p = f"
        by (auto simp: buckets_categorizeFile)
      with True assms i show ?thesis by (auto simp: placed_def)
    next
      case False
      with p have "p \<in> set (buckets c ! i)" by (simp add: buckets_categorizeFile)
      with assms i show ?thesis by (auto simp: placed_def)
    qed
  qed
qed

lemma foldl_categorize:
  "placed c \<Longrightarrow> angular c = [] \<Longrightarrow>
   placed (foldl categorizeFile c fs) \<and> angular (foldl categorizeFile c fs) = [] \<and>
   mset (concat (buckets (foldl categorizeFile c fs))) = mset (concat (buckets c)) + mset fs"
proof (induction fs arbitrary: c)
  case Nil then show ?case by simp
next
  case (Cons f fs)
  have a: "angular (categorizeFile c f) = []"
    unfolding categorizeFile_def Let_def
    by (intro if_chain1[where R = "\<lambda>r. angular r = []"]) (simp_all add: Cons.prems(2))
  have m: "mset (concat (buckets (categorizeFile c f))) = add_mset f (mset (concat (buckets c)))"
    using bucketOf_range[of f] by (simp add: buckets_categorizeFile mset_concat_push length_buckets)
  from Cons.IH[OF placed_step[OF Cons.prems(1)] a] m show ?case by simp
qed

lemma placed_empty: "placed emptyCategories"
proof -
  have "buckets emptyCategories = replicate 12 []"
    by (simp add: emptyCategories_def buckets_def numeral_eq_Suc)
  then show ?thesis by (simp add: placed_def)
qed


section \<open>Lemmas on replacement over pieces\<close>

lemma fit_Exact: "fit pat h = Exact \<Longrightarrow> matchAt pat (h @ rest) = Some rest \<and> length pat = length h"
  by (induction pat h rule: fit.induct) (auto split: if_splits)

lemma fit_Clash: "fit pat h = Clash \<Longrightarrow> matchAt pat (h @ rest) = None"
  by (induction pat h rule: fit.induct) (auto split: if_splits)

lemma expand_plain: "36 \<notin> set rep \<Longrightarrow> expand rep m l r = rep"
  by (induction rep m l r rule: expand.induct) auto

lemma replaceFrom_skip_char:
  "c \<noteq> x \<Longrightarrow> replaceFrom (Lit x # p) rep seen (c # cs) = c # replaceFrom (Lit x # p) rep (c # seen) cs"
  by (simp add: replaceFrom.simps)

lemma replaceFrom_skip:
  "x \<notin> set t \<Longrightarrow>
   replaceFrom (Lit x # p) rep seen (t @ rest) = t @ replaceFrom (Lit x # p) rep (rev t @ seen) rest"
proof (induction t arbitrary: seen)
  case Nil then show ?case by simp
next
  case (Cons c t)
  then have "c \<noteq> x" "x \<notin> set t" by auto
  with Cons.IH[of "c # seen"] show ?case by (simp add: replaceFrom_skip_char)
qed

lemma replaceFrom_exact:
  assumes "fit pat h = Exact" "pat \<noteq> []" "36 \<notin> set rep"
  shows "replaceFrom pat rep seen (h @ rest) = rep @ replaceFrom pat rep (rev h @ seen) rest"
proof -
  from fit_Exact[OF assms(1), of rest] have m: "matchAt pat (h @ rest) = Some rest" and l: "length pat = length h"
    by auto
  from l assms(2) obtain c cs where h: "h = c # cs" by (cases h) auto
  show ?thesis using m l assms(2,3)
    by (simp add: h replaceFrom.simps expand_plain)
qed

lemma replaceFrom_clash:
  assumes "fit (Lit 123 # Lit 123 # p) (123 # 123 # body) = Clash" "body \<noteq> []" "123 \<notin> set body"
  shows "replaceFrom (Lit 123 # Lit 123 # p) rep seen (123 # 123 # body @ rest)
         = 123 # 123 # body @ replaceFrom (Lit 123 # Lit 123 # p) rep (rev (123 # 123 # body) @ seen) rest"
proof -
  let ?pat = "Lit 123 # Lit 123 # p"
  from fit_Clash[OF assms(1), of rest] have m0: "matchAt ?pat (123 # 123 # body @ rest) = None" by simp
  from assms(2,3) obtain b bs where b: "body = b # bs" "b \<noteq> 123" by (cases body) auto
  then have m1: "matchAt ?pat (123 # body @ rest) = None" by simp
  have "replaceFrom ?pat rep seen (123 # 123 # body @ rest)
        = 123 # 123 # replaceFrom ?pat rep (123 # 123 # seen) (body @ rest)"
    using m0 m1 by (simp add: replaceFrom.simps)
  also have "replaceFrom ?pat rep (123 # 123 # seen) (body @ rest)
        = body @ replaceFrom ?pat rep (rev body @ 123 # 123 # seen) rest"
    using assms(3) by (rule replaceFrom_skip)
  finally show ?thesis by simp
qed

text \<open>One pass over well-formed pieces.\<close>


lemma pass_pieces:
  assumes "bracePat pat"
  shows "list_all wfPiece ps \<Longrightarrow> map (run [(pat, rep)]) ps = map Some qs \<Longrightarrow>
         replaceFrom pat rep seen (flatten ps) = flatten qs \<and> list_all wfPiece qs"
proof (induction ps arbitrary: qs seen)
  case Nil
  from assms have "pat \<noteq> []" by (cases pat) auto
  with Nil show ?case by (simp add: flatten_def replaceFrom.simps)
next
  case (Cons a ps)
  from assms obtain p where pat: "pat = Lit 123 # Lit 123 # p"
    by (cases pat rule: bracePat.cases) auto
  from Cons.prems(2) obtain q qs' where qs: "qs = q # qs'" "run [(pat, rep)] a = Some q"
      "map (run [(pat, rep)]) ps = map Some qs'"
    by (cases qs) auto
  from Cons.prems(1) have wf: "wfPiece a" "list_all wfPiece ps" by auto
  note IH = Cons.IH[OF wf(2) qs(3)]
  show ?case
  proof (cases a)
    case (Text t)
    with qs have q: "q = Text t" by simp
    from wf Text have "123 \<notin> set t" by simp
    then have "replaceFrom pat rep seen (t @ flatten ps) = t @ replaceFrom pat rep (rev t @ seen) (flatten ps)"
      unfolding pat by (rule replaceFrom_skip)
    with IH[of "rev t @ seen"] wf show ?thesis by (simp add: flatten_def qs q Text)
  next
    case (Hole h)
    from wf Hole obtain body where h: "h = 123 # 123 # body" "body \<noteq> []" "123 \<notin> set body"
      by (auto split: list.splits)
    show ?thesis
    proof (cases "fit pat h")
      case Exact
      with qs Hole have c: "clean rep" and q: "q = Text rep" by (auto split: if_splits)
      from c have d: "36 \<notin> set rep" "123 \<notin> set rep" by (auto simp: clean_def)
      have "replaceFrom pat rep seen (h @ flatten ps) = rep @ replaceFrom pat rep (rev h @ seen) (flatten ps)"
        using Exact d(1) by (intro replaceFrom_exact) (auto simp: pat)
      with IH[of "rev h @ seen"] d show ?thesis by (simp add: flatten_def qs q Hole)
    next
      case Clash
      with qs Hole have q: "q = Hole h" by simp
      have "replaceFrom pat rep seen (h @ flatten ps) = h @ replaceFrom pat rep (rev h @ seen) (flatten ps)"
        using replaceFrom_clash[where p=p and body=body and rest="flatten ps" and rep=rep and seen=seen] Clash h
        by (simp add: pat)
      with IH[of "rev h @ seen"] wf show ?thesis by (simp add: flatten_def qs q Hole)
    next
      case Unsettled
      with qs Hole show ?thesis by simp
    qed
  qed
qed

lemma run_Text: "run passes (Text t) = Some (Text t)"
  by (cases passes) auto

lemma run_Cons:
  "run ((pat, rep) # rest) p = (case run [(pat, rep)] p of None \<Rightarrow> None | Some p' \<Rightarrow> run rest p')"
  by (cases p) (auto simp: run_Text split: verdict.splits)

lemma run_pieces:
  "list_all bracePat (map fst passes) \<Longrightarrow> list_all wfPiece ps \<Longrightarrow>
   map (run passes) ps = map Some qs \<Longrightarrow>
   runPasses passes (flatten ps) = flatten qs \<and> list_all wfPiece qs"
proof (induction passes arbitrary: ps)
  case Nil
  then have "map Some ps = map Some qs" by simp
  then have "ps = qs" by (simp add: inj_map_eq_map)
  with Nil show ?case by (simp add: runPasses_def)
next
  case (Cons pass passes)
  obtain pat rep where pass: "pass = (pat, rep)" by (cases pass)
  define ms where "ms = map (\<lambda>p. the (run [(pat, rep)] p)) ps"
  have len: "length ps = length qs" using Cons.prems(3) by (metis length_map)
  have each: "run [(pat, rep)] (ps ! i) = Some (ms ! i) \<and> run passes (ms ! i) = Some (qs ! i)"
    if "i < length ps" for i
  proof -
    from Cons.prems(3) that len have "run ((pat, rep) # passes) (ps ! i) = Some (qs ! i)"
      unfolding pass by (metis nth_map)
    then show ?thesis using that
      by (subst (asm) run_Cons) (auto simp: ms_def split: option.splits)
  qed
  have m1: "map (run [(pat, rep)]) ps = map Some ms"
    using each by (auto simp: list_eq_iff_nth_eq ms_def)
  have m2: "map (run passes) ms = map Some qs"
    using each len by (auto simp: list_eq_iff_nth_eq ms_def)
  from Cons.prems(1) have b: "bracePat pat" "list_all bracePat (map fst passes)" by (auto simp: pass)
  from pass_pieces[OF b(1) Cons.prems(2) m1, of "[]"]
  have r: "replace pat rep (flatten ps) = flatten ms" and wf: "list_all wfPiece ms"
    by (auto simp: replace_def)
  from Cons.IH[OF b(2) wf m2] r show ?case by (simp add: runPasses_def pass)
qed

lemma runPasses_append: "runPasses (xs @ ys) t = runPasses ys (runPasses xs t)"
  by (simp add: runPasses_def)

lemma runPasses_Nil: "runPasses [] t = t"
  by (simp add: runPasses_def)

lemma runPasses_Cons: "runPasses (pass # rest) t = runPasses rest (replace (fst pass) (snd pass) t)"
  by (simp add: runPasses_def)

lemma fillTechnology_passes: "fillTechnology tech t = runPasses (technologyPasses tech) t"
  by (simp add: fillTechnology_def technologyPasses_def runPasses_Cons runPasses_Nil Let_def)

lemma fillStructure_passes: "fillStructure st t = runPasses (structurePasses st) t"
  by (simp add: fillStructure_def structurePasses_def runPasses_Cons runPasses_Nil Let_def)

lemma foldl_runPasses: "foldl (\<lambda>t e. replace (fst (f e)) (snd (f e)) t) t es = runPasses (map f es) t"
  by (simp add: runPasses_def foldl_map)

lemma fillFileTypes_passes: "fillFileTypes c t = runPasses (map fileTypePass (fileTypeEntries c)) t"
proof -
  have eq: "fillFileType = (\<lambda>t e. replace (fst (fileTypePass e)) (snd (fileTypePass e)) t)"
    by (intro ext) (simp add: fillFileType_def fileTypePass_def Let_def)
  show ?thesis unfolding fillFileTypes_def eq by (rule foldl_runPasses)
qed

lemma fillImportantFiles_passes:
  "fillImportantFiles i t = runPasses (map importantPass (importantEntries i)) t"
proof -
  have eq: "fillImportant = (\<lambda>t e. replace (fst (importantPass e)) (snd (importantPass e)) t)"
    by (intro ext) (simp add: fillImportant_def importantPass_def Let_def)
  show ?thesis unfolding fillImportantFiles_def eq by (rule foldl_runPasses)
qed

lemma fillDependencies_passes: "fillDependencies d t = runPasses (dependencyPasses d) t"
  by (simp add: fillDependencies_def dependencyPasses_def runPasses_Cons runPasses_Nil Let_def)

lemma populateTemplate_passes: "populateTemplate t a q = runPasses (allPasses a q) t"
  by (simp add: populateTemplate_def allPasses_def basePasses_def runPasses_append runPasses_Cons
        runPasses_Nil Let_def fillTechnology_passes fillStructure_passes fillFileTypes_passes
        fillImportantFiles_passes fillDependencies_passes split: option.splits)

lemma run_append: "run (xs @ ys) p = (case run xs p of None \<Rightarrow> None | Some p' \<Rightarrow> run ys p')"
proof (induction xs)
  case Nil show ?case by simp
next
  case (Cons pass xs)
  then show ?case by (cases p) (auto simp: run_Text split: verdict.splits)
qed

text \<open>Matching a literal pattern, character by character of its text.\<close>

lemma fit_lit_Nil: "fit (lit []) [] = Exact" "fit (lit []) (x # h) = Unsettled"
  by (simp_all add: lit_def js_def)

lemma fit_lit_Cons:
  "fit (lit (c # s)) [] = Unsettled"
  "fit (lit (c # s)) (x # h) = (if x = of_char c then fit (lit s) h else Clash)"
  by (simp_all add: lit_def js_def)

lemma fit_regexOf_Nil: "fit (regexOf []) [] = Exact" "fit (regexOf []) (x # h) = Unsettled"
  by (simp_all add: regexOf_def)

lemma fit_regexOf_Cons:
  "fit (regexOf (n # ns)) [] = Unsettled"
  "fit (regexOf (n # ns)) (x # h) =
     (if n = 46 then (if lineTerminator x then Clash else fit (regexOf ns) h)
      else if x = n then fit (regexOf ns) h else Clash)"
  by (simp_all add: regexOf_def)

lemma js_append: "js a @ js b = js (a @ b)"
  by (simp add: js_def)

lemma clean_showNat: "clean (showNat n)"
proof (induction n rule: showNat.induct)
  case (1 n)
  show ?case
  proof (cases "n < 10")
    case True
    then show ?thesis by (subst showNat.simps) (auto simp: clean_def)
  next
    case False
    have "n mod 10 < 10" by simp
    then have "48 + n mod 10 \<noteq> 123" "48 + n mod 10 \<noteq> 36" by arith+
    with 1 False show ?thesis by (subst showNat.simps) (auto simp: clean_def)
  qed
qed

lemma fst_fileTypePass: "fst (fileTypePass (k, v)) = regexOf (js (''{{fileTypes.'' @ k @ ''.length}}''))"
  by (simp add: fileTypePass_def js_def)

lemma snd_fileTypePass: "snd (fileTypePass (k, v)) = showNat (length v)"
  by (simp add: fileTypePass_def)

lemma fst_importantPass: "fst (importantPass (k, v)) = regexOf (js (''{{importantFiles.'' @ k @ ''}}''))"
  by (simp add: importantPass_def js_def)

lemma dependenciesPattern_lit:
  "dependenciesPattern = lit (''{{Object.keys(dependencies.dependencies).slice(0, 10).join('' @ [CHR 0x27, CHR 0x27] @ '', '' @ [CHR 0x27, CHR 0x27] @ '') || 'None'}}'')"
  "devDependenciesPattern = lit (''{{Object.keys(dependencies.devDependencies).slice(0, 10).join('' @ [CHR 0x27, CHR 0x27] @ '', '' @ [CHR 0x27, CHR 0x27] @ '') || 'None'}}'')"
  by (simp_all add: dependenciesPattern_def devDependenciesPattern_def lit_def js_def)

text \<open>The passes of a block are spelled out only in front of a placeholder.\<close>

lemma run_blocks:
  "run (basePasses a q) (Hole h) =
     run [(lit ''{{projectName}}'', orText (projectName a) (js ''Unknown'')),
          (lit ''{{totalFiles}}'', showNat (totalFiles a)),
          (lit ''{{userQuestion}}'', q)] (Hole h)"
  "run (technologyPasses tech) (Hole h) =
     run [(lit ''{{technology.framework}}'', orText (framework tech) (js ''Unknown'')),
      (lit ''{{technology.language}}'', orText (language tech) (js ''Unknown'')),
      (lit ''{{technology.styling}}'', orText (styling tech) (js ''Unknown'')),
      (lit ''{{technology.bundler}}'', orText (bundler tech) (js ''Unknown'')),
      (lit ''{{technology.testing}}'', orText (testing tech) (js ''Unknown'')),
      (lit ''{{technology.hasTypeScript}}'', yesNo (hasTypeScript tech)),
      (lit ''{{technology.hasReact}}'', yesNo (truthyOpt (hasReact tech))),
      (lit ''{{technology.hasVue}}'', yesNo (truthyOpt (hasVue tech))),
      (lit ''{{technology.hasAngular}}'', yesNo (truthyOpt (hasAngular tech)))] (Hole h)"
  "run (structurePasses st) (Hole h) =
     run [(lit ''{{structure.hasSrcFolder}}'', yesNo (hasSrcFolder st)),
      (lit ''{{structure.hasPublicFolder}}'', yesNo (hasPublicFolder st)),
      (lit ''{{structure.hasComponentsFolder}}'', yesNo (hasComponentsFolder st)),
      (lit ''{{structure.hasPagesFolder}}'', yesNo (hasPagesFolder st)),
      (lit ''{{structure.hasApiFolder}}'', yesNo (hasApiFolder st))] (Hole h)"
  "run (map fileTypePass (fileTypeEntries c)) (Hole h) =
     run [fileTypePass (''javascript'', javascript c), fileTypePass (''typescript'', typescript c),
      fileTypePass (''react'', react c), fileTypePass (''vue'', vue c),
      fileTypePass (''angular'', angular c), fileTypePass (''styles'', categories.styles c),
      fileTypePass (''html'', html c), fileTypePass (''images'', images c),
      fileTypePass (''config'', categories.config c),
      fileTypePass (''documentation'', documentation c), fileTypePass (''tests'', tests c),
      fileTypePass (''other'', other c)] (Hole h)"
  "run (map importantPass (importantEntries i)) (Hole h) =
     run [importantPass (''entryPoints'', entryPoints i), importantPass (''components'', components i),
      importantPass (''pages'', pages i), importantPass (''api'', api i),
      importantPass (''config'', important.config i), importantPass (''styles'', important.styles i)]
      (Hole h)"
  "run (dependencyPasses d) (Hole h) =
     run [(dependenciesPattern, snd (dependencyPasses d ! 0)),
          (devDependenciesPattern, snd (dependencyPasses d ! 1))] (Hole h)"
  by (simp_all add: basePasses_def technologyPasses_def structurePasses_def fileTypeEntries_def
        importantEntries_def dependencyPasses_def)

lemma run_allPasses:
  "run (allPasses \<lparr>projectName = n, totalFiles = k, fileTypes = Some c, importantFiles = Some i,
          dependencies = Some d, technology = Some tech, structure = Some st\<rparr> q) (Hole h) =
   run (basePasses \<lparr>projectName = n, totalFiles = k, fileTypes = Some c, importantFiles = Some i,
          dependencies = Some d, technology = Some tech, structure = Some st\<rparr> q
        @ technologyPasses tech @ structurePasses st @ map fileTypePass (fileTypeEntries c)
        @ map importantPass (importantEntries i) @ dependencyPasses d) (Hole h)"
  by (simp add: allPasses_def)

lemmas run_eval = run_Text run_allPasses run_append run_blocks fit_lit_Nil fit_lit_Cons
  fit_regexOf_Nil fit_regexOf_Cons fst_fileTypePass snd_fileTypePass fst_importantPass
  dependenciesPattern_lit lineTerminator_def clean_showNat

lemma overview_run:
  assumes "clean (orText n (js ''Unknown''))"
    "clean (orText (framework tech) (js ''Unknown''))" "clean (orText (language tech) (js ''Unknown''))"
    "clean (orText (styling tech) (js ''Unknown''))" "clean (orText (bundler tech) (js ''Unknown''))"
    "clean (orText (testing tech) (js ''Unknown''))"
  shows "map (run (allPasses \<lparr>projectName = n, totalFiles = k, fileTypes = Some c, importantFiles = Some i,
          dependencies = Some d, technology = Some tech, structure = Some st\<rparr> q))
       (overviewLines (Hole (js ''{{projectName}}'')) (Hole (js ''{{totalFiles}}''))
       (Hole (js ''{{technology.framework}}'')) (Hole (js ''{{technology.language}}''))
       (Hole (js ''{{technology.styling}}'')) (Hole (js ''{{technology.bundler}}''))
       (Hole (js ''{{technology.testing}}'')))
     = map Some (overviewLines (Text (orText n (js ''Unknown''))) (Text (showNat k))
         (Text (orText (framework tech) (js ''Unknown''))) (Text (orText (language tech) (js ''Unknown'')))
         (Text (orText (styling tech) (js ''Unknown''))) (Text (orText (bundler tech) (js ''Unknown'')))
         (Text (orText (testing tech) (js ''Unknown''))))"
  using assms unfolding overviewLines_def
  by (simp add: run_eval js_def)

lemma stack_run: "map (run (allPasses (full n k c i d tech st) q)) stackLines = map Some stackLines"
  unfolding stackLines_def by (simp add: run_eval js_def)

lemma structure_run: "map (run (allPasses (full n k c i d tech st) q)) structureLines = map Some structureLines"
  unfolding structureLines_def by (simp add: run_eval js_def)

lemma breakdown_run:
  "map (run (allPasses (full n k c i d tech st) q))
     (breakdownLines (Hole (js ''{{fileTypes.javascript.length}}''))
       (Hole (js ''{{fileTypes.typescript.length}}''))
       (Hole (js ''{{fileTypes.react.length}}''))
       (Hole (js ''{{fileTypes.vue.length}}''))
       (Hole (js ''{{fileTypes.styles.length}}''))
       (Hole (js ''{{fileTypes.html.length}}''))
       (Hole (js ''{{fileTypes.images.length}}''))
       (Hole (js ''{{fileTypes.config.length}}''))
       (Hole (js ''{{fileTypes.documentation.length}}''))
       (Hole (js ''{{fileTypes.tests.length}}'')))
   = map Some (breakdownLines (Text (showNat (length (javascript c))))
       (Text (showNat (length (typescript c)))) (Text (showNat (length (react c))))
       (Text (showNat (length (vue c)))) (Text (showNat (length (categories.styles c))))
       (Text (showNat (length (html c)))) (Text (showNat (length (images c))))
       (Text (showNat (length (categories.config c)))) (Text (showNat (length (documentation c))))
       (Text (showNat (length (tests c)))))"
  unfolding breakdownLines_def by (simp add: run_eval js_def)

lemma important_run: "map (run (allPasses (full n k c i d tech st) q)) importantLines = map Some importantLines"
  unfolding importantLines_def by (simp add: run_eval js_def)

lemma dependency_run: "map (run (allPasses (full n k c i d tech st) q)) dependencyLines = map Some dependencyLines"
  unfolding dependencyLines_def by (simp add: run_eval js_def)

lemma request_run: "map (run (allPasses (full n k c i d tech st) q)) requestLines = map Some requestLines"
  unfolding requestLines_def by (simp add: run_eval js_def)

lemma allPasses_brace: "list_all bracePat (map fst (allPasses a q))"
proof -
  have b: "list_all bracePat (map fst (basePasses a q))"
    by (simp add: basePasses_def lit_def js_def)
  have t: "list_all bracePat (map fst (whenPresent technologyPasses x))" for x
    by (cases x) (simp_all add: technologyPasses_def lit_def js_def)
  have s: "list_all bracePat (map fst (whenPresent structurePasses x))" for x
    by (cases x) (simp_all add: structurePasses_def lit_def js_def)
  have f: "list_all bracePat (map fst (whenPresent (\<lambda>c. map fileTypePass (fileTypeEntries c)) x))" for x
    by (cases x) (simp_all add: fileTypeEntries_def fileTypePass_def regexOf_def js_def)
  have i: "list_all bracePat (map fst (whenPresent (\<lambda>i. map importantPass (importantEntries i)) x))" for x
    by (cases x) (simp_all add: importantEntries_def importantPass_def regexOf_def js_def)
  have d: "list_all bracePat (map fst (whenPresent dependencyPasses x))" for x
    by (cases x) (simp_all add: dependencyPasses_def dependenciesPattern_def devDependenciesPattern_def lit_def js_def)
  show ?thesis unfolding allPasses_def using b t s f i d by simp
qed

lemma wf_overviewLines:
  "list_all wfPiece (overviewLines a b c d e f g) =
   (wfPiece a \<and> wfPiece b \<and> wfPiece c \<and> wfPiece d \<and> wfPiece e \<and> wfPiece f \<and> wfPiece g)"
  by (simp add: overviewLines_def js_def)

lemma wf_breakdownLines:
  "list_all wfPiece (breakdownLines a b c d e f g h i j) =
   (wfPiece a \<and> wfPiece b \<and> wfPiece c \<and> wfPiece d \<and> wfPiece e \<and> wfPiece f \<and> wfPiece g
    \<and> wfPiece h \<and> wfPiece i \<and> wfPiece j)"
  by (simp add: breakdownLines_def js_def)

lemma wf_sections:
  "list_all wfPiece stackLines" "list_all wfPiece structureLines" "list_all wfPiece importantLines"
  "list_all wfPiece dependencyLines" "list_all wfPiece requestLines"
  by (simp_all add: stackLines_def structureLines_def importantLines_def dependencyLines_def
        requestLines_def js_def)

lemma wf_defaultPieces: "list_all wfPiece defaultPieces"
  by (simp add: defaultPieces_def wf_overviewLines wf_breakdownLines wf_sections js_def)

lemma default_render:
  assumes "clean (orText n (js ''Unknown''))"
    "clean (orText (framework tech) (js ''Unknown''))" "clean (orText (language tech) (js ''Unknown''))"
    "clean (orText (styling tech) (js ''Unknown''))" "clean (orText (bundler tech) (js ''Unknown''))"
    "clean (orText (testing tech) (js ''Unknown''))"
  shows "populateTemplate getDefaultTemplate (full n k c i d tech st) q =
     flatten (overviewLines (Text (orText n (js ''Unknown''))) (Text (showNat k))
         (Text (orText (framework tech) (js ''Unknown''))) (Text (orText (language tech) (js ''Unknown'')))
         (Text (orText (styling tech) (js ''Unknown''))) (Text (orText (bundler tech) (js ''Unknown'')))
         (Text (orText (testing tech) (js ''Unknown'')))
       @ stackLines @ structureLines
       @ breakdownLines (Text (showNat (length (javascript c))))
         (Text (showNat (length (typescript c)))) (Text (showNat (length (react c))))
         (Text (showNat (length (vue c)))) (Text (showNat (length (categories.styles c))))
         (Text (showNat (length (html c)))) (Text (showNat (length (images c))))
         (Text (showNat (length (categories.config c)))) (Text (showNat (length (documentation c))))
         (Text (showNat (length (tests c))))
       @ importantLines @ dependencyLines @ requestLines)"
proof -
  have m: "map (run (allPasses (full n k c i d tech st) q)) defaultPieces = map Some
     (overviewLines (Text (orText n (js ''Unknown''))) (Text (showNat k))
         (Text (orText (framework tech) (js ''Unknown''))) (Text (orText (language tech) (js ''Unknown'')))
         (Text (orText (styling tech) (js ''Unknown''))) (Text (orText (bundler tech) (js ''Unknown'')))
         (Text (orText (testing tech) (js ''Unknown'')))
       @ stackLines @ structureLines
       @ breakdownLines (Text (showNat (length (javascript c))))
         (Text (showNat (length (typescript c)))) (Text (showNat (length (react c))))
         (Text (showNat (length (vue c)))) (Text (showNat (length (categories.styles c))))
         (Text (showNat (length (html c)))) (Text (showNat (length (images c))))
         (Text (showNat (length (categories.config c)))) (Text (showNat (length (documentation c))))
         (Text (showNat (length (tests c))))
       @ importantLines @ dependencyLines @ requestLines)"
    unfolding defaultPieces_def map_append
    by (simp only: overview_run[OF assms] stack_run structure_run breakdown_run important_run
          dependency_run request_run)
  from run_pieces[OF allPasses_brace wf_defaultPieces m]
  show ?thesis by (simp add: populateTemplate_passes getDefaultTemplate_def)
qed

section \<open>Lemmas on the analysis of an empty project\<close>

lemma has_empty: "has (spread2 (JObj []) (JObj [])) name = False"
  by (simp add: has_def spread2_def)

lemma detectTechnology_nothing: "detectTechnology emptyCategories defaultRecord = vanillaProfile"
  by (simp add: detectTechnology_def defaultRecord_def emptyCategories_def vanillaProfile_def
        detectFramework_def detectLanguage_def detectStyling_def detectBundler_def detectTesting_def
        has_empty Let_def)
     (simp add: spread2_def)

lemma analyzeCodebase_no_files:
  assumes "findAllFiles h p (resolve h p) = []"
    and "readFileSync (resolve h (path_join h p (js ''package.json''))) = Inl e"
  shows "analyzeCodebase h p =
           full (basename p) 0 emptyCategories emptyImportant defaultRecord vanillaProfile noDirectories"
  using assms
  by (simp add: analyzeCodebase_def Let_def categorizeFiles_def identifyImportantFiles_def
        analyzeDependencies_def readPackageJson_def detectTechnology_nothing analyzeStructure_def
        noDirectories_def)

lemma clean_literals:
  "clean (js ''Unknown'')" "clean (js ''Vanilla JavaScript'')" "clean (js ''None detected'')"
  "clean (js ''None found'')" "clean (js ''None'')" "clean (js ''Yes'')" "clean (js ''No'')"
  by (simp_all add: clean_def js_def)

lemma clean_orText: "clean t \<Longrightarrow> clean f \<Longrightarrow> clean (orText t f)"
  by (simp add: orText_def)

lemma showNat_0: "showNat 0 = js ''0''"
  by (simp add: showNat.simps js_def)

lemma empty_project_render:
  assumes "findAllFiles h p (resolve h p) = []"
    and "readFileSync (resolve h (path_join h p (js ''package.json''))) = Inl e"
    and "clean (basename p)"
  shows "populateTemplate getDefaultTemplate (analyzeCodebase h p) q =
     flatten (overviewLines (Text (orText (basename p) (js ''Unknown''))) (Text (js ''0''))
         (Text (js ''Vanilla JavaScript'')) (Text (js ''Unknown'')) (Text (js ''Unknown''))
         (Text (js ''Unknown'')) (Text (js ''None detected''))
       @ stackLines @ structureLines
       @ breakdownLines (Text (js ''0'')) (Text (js ''0'')) (Text (js ''0'')) (Text (js ''0''))
           (Text (js ''0'')) (Text (js ''0'')) (Text (js ''0'')) (Text (js ''0'')) (Text (js ''0''))
           (Text (js ''0''))
       @ importantLines @ dependencyLines @ requestLines)"
proof -
  have c: "clean (orText (basename p) (js ''Unknown''))"
    using assms(3) by (simp add: clean_orText clean_literals)
  have t: "clean (orText (framework vanillaProfile) (js ''Unknown''))"
    "clean (orText (language vanillaProfile) (js ''Unknown''))"
    "clean (orText (styling vanillaProfile) (js ''Unknown''))"
    "clean (orText (bundler vanillaProfile) (js ''Unknown''))"
    "clean (orText (testing vanillaProfile) (js ''Unknown''))"
    by (simp_all add: vanillaProfile_def clean_orText clean_literals)
  have v: "orText (framework vanillaProfile) (js ''Unknown'') = js ''Vanilla JavaScript''"
    "orText (language vanillaProfile) (js ''Unknown'') = js ''Unknown''"
    "orText (styling vanillaProfile) (js ''Unknown'') = js ''Unknown''"
    "orText (bundler vanillaProfile) (js ''Unknown'') = js ''Unknown''"
    "orText (testing vanillaProfile) (js ''Unknown'') = js ''None detected''"
    by (simp_all add: vanillaProfile_def orText_def js_def)
  have z: "length (javascript emptyCategories) = 0" "length (typescript emptyCategories) = 0"
    "length (react emptyCategories) = 0" "length (vue emptyCategories) = 0"
    "length (categories.styles emptyCategories) = 0" "length (html emptyCategories) = 0"
    "length (images emptyCategories) = 0" "length (categories.config emptyCategories) = 0"
    "length (documentation emptyCategories) = 0" "length (tests emptyCategories) = 0"
    by (simp_all add: emptyCategories_def)
  show ?thesis
    unfolding analyzeCodebase_no_files[OF assms(1,2)] default_render[OF c t] v z showNat_0 ..
qed

lemma basename_tmp_empty: "basename (js ''/tmp/empty'') = js ''empty''"
  by (simp add: basename_def js_def)

lemma basename_no_such_dir: "basename (js ''/no/such/dir'') = js ''dir''"
  by (simp add: basename_def js_def)

section \<open>Lemmas on single placeholders and on detection\<close>

lemma detectFramework_firstPresent: "detectFramework deps = firstPresent deps"
  by (simp add: detectFramework_def firstPresent_def frameworkTable_def)

lemma has_spread2:
  "has (spread2 (JObj rt) (JObj dev)) name =
     truthyOpt (case map_of dev (js name) of Some v \<Rightarrow> Some v | None \<Rightarrow> map_of rt (js name))"
  by (simp add: has_def spread2_def map_add_def)

lemma has_nextAndReact:
  "has (spread2 (dependencyRecord.dependencies (nextAndReact v)) (devDependencies (nextAndReact v))) ''next''
     = (v \<noteq> [])"
  "has (spread2 (dependencyRecord.dependencies (nextAndReact v)) (devDependencies (nextAndReact v))) ''react''"
  "\<not> has (spread2 (dependencyRecord.dependencies (nextAndReact v)) (devDependencies (nextAndReact v))) ''nuxt''"
  "\<not> has (spread2 (dependencyRecord.dependencies (nextAndReact v)) (devDependencies (nextAndReact v))) ''vue''"
  "\<not> has (spread2 (dependencyRecord.dependencies (nextAndReact v)) (devDependencies (nextAndReact v))) ''@angular/core''"
  by (simp_all add: nextAndReact_def has_spread2 js_def)

lemma run_whenPresent_None: "run (whenPresent f None) p = Some p"
  by simp

lemma foreign_base:
  "x \<noteq> 112 \<Longrightarrow> x \<noteq> 116 \<Longrightarrow> x \<noteq> 117 \<Longrightarrow>
   run (basePasses a q) (Hole (123 # 123 # x # r)) = Some (Hole (123 # 123 # x # r))"
  by (simp add: run_blocks fit_lit_Cons)

lemma foreign_technology:
  "x \<noteq> 116 \<Longrightarrow>
   run (whenPresent technologyPasses o_tech) (Hole (123 # 123 # x # r)) = Some (Hole (123 # 123 # x # r))"
  by (cases o_tech) (simp_all add: run_blocks fit_lit_Cons)

lemma foreign_structure:
  "x \<noteq> 115 \<Longrightarrow>
   run (whenPresent structurePasses o_st) (Hole (123 # 123 # x # r)) = Some (Hole (123 # 123 # x # r))"
  by (cases o_st) (simp_all add: run_blocks fit_lit_Cons)

lemma foreign_fileTypes:
  "x \<noteq> 102 \<Longrightarrow>
   run (whenPresent (\<lambda>c. map fileTypePass (fileTypeEntries c)) o_c) (Hole (123 # 123 # x # r))
     = Some (Hole (123 # 123 # x # r))"
  by (cases o_c) (simp_all add: run_blocks fst_fileTypePass fit_regexOf_Cons js_def)

lemma role_holes:
  "clean (orText (join (map basename (entryPoints i)) (js '', '')) (js ''None found'')) \<Longrightarrow>
   run (map importantPass (importantEntries i)) (Hole (js ''{{importantFiles.entryPoints}}''))
     = Some (Text (orText (join (map basename (entryPoints i)) (js '', '')) (js ''None found'')))"
  "clean (orText (join (map basename (components i)) (js '', '')) (js ''None found'')) \<Longrightarrow>
   run (map importantPass (importantEntries i)) (Hole (js ''{{importantFiles.components}}''))
     = Some (Text (orText (join (map basename (components i)) (js '', '')) (js ''None found'')))"
  "clean (orText (join (map basename (pages i)) (js '', '')) (js ''None found'')) \<Longrightarrow>
   run (map importantPass (importantEntries i)) (Hole (js ''{{importantFiles.pages}}''))
     = Some (Text (orText (join (map basename (pages i)) (js '', '')) (js ''None found'')))"
  "clean (orText (join (map basename (api i)) (js '', '')) (js ''None found'')) \<Longrightarrow>
   run (map importantPass (importantEntries i)) (Hole (js ''{{importantFiles.api}}''))
     = Some (Text (orText (join (map basename (api i)) (js '', '')) (js ''None found'')))"
  "clean (orText (join (map basename (important.config i)) (js '', '')) (js ''None found'')) \<Longrightarrow>
   run (map importantPass (importantEntries i)) (Hole (js ''{{importantFiles.config}}''))
     = Some (Text (orText (join (map basename (important.config i)) (js '', '')) (js ''None found'')))"
  "clean (orText (join (map basename (important.styles i)) (js '', '')) (js ''None found'')) \<Longrightarrow>
   run (map importantPass (importantEntries i)) (Hole (js ''{{importantFiles.styles}}''))
     = Some (Text (orText (join (map basename (important.styles i)) (js '', '')) (js ''None found'')))"
  by (simp_all add: run_blocks fst_importantPass fit_regexOf_Cons fit_regexOf_Nil js_def
        lineTerminator_def importantPass_def)

lemma role_hole:
  assumes "(role, files) \<in> set (importantEntries i)"
    and "clean (join (map basename files) (js '', ''))"
  shows "run (map importantPass (importantEntries i)) (Hole (js ''{{importantFiles.'' @ js role @ js ''}}''))
         = Some (Text (orText (join (map basename files) (js '', '')) (js ''None found'')))"
proof -
  have c: "clean (orText (join (map basename files) (js '', '')) (js ''None found''))"
    using assms(2) by (simp add: clean_orText clean_literals)
  have j: "js ''{{importantFiles.'' @ js r @ js ''}}'' = js (''{{importantFiles.'' @ r @ ''}}'')" for r
    by (simp add: js_def)
  have "(role = ''entryPoints'' \<and> files = entryPoints i) \<or> (role = ''components'' \<and> files = components i)
      \<or> (role = ''pages'' \<and> files = pages i) \<or> (role = ''api'' \<and> files = api i)
      \<or> (role = ''config'' \<and> files = important.config i)
      \<or> (role = ''styles'' \<and> files = important.styles i)"
    using assms(1) unfolding importantEntries_def by simp
  then show ?thesis
  proof (elim disjE conjE, goal_cases)
    case 1 from role_holes(1)[of i] c show ?case unfolding j 1 by simp
  next
    case 2 from role_holes(2)[of i] c show ?case unfolding j 2 by simp
  next
    case 3 from role_holes(3)[of i] c show ?case unfolding j 3 by simp
  next
    case 4 from role_holes(4)[of i] c show ?case unfolding j 4 by simp
  next
    case 5 from role_holes(5)[of i] c show ?case unfolding j 5 by simp
  next
    case 6 from role_holes(6)[of i] c show ?case unfolding j 6 by simp
  qed
qed

lemma role_hole_shape:
  "js ''{{importantFiles.'' @ js role @ js ''}}''
     = 123 # 123 # 105 # js ''mportantFiles.'' @ js role @ js ''}}''"
  by (simp add: js_def)

lemma site_files:
  "findAllFiles siteHost (js ''/site'') (resolve siteHost (js ''/site'')) = [js ''/site/pages/a$$b.js'']"
  by (simp add: siteHost_def plainJoin_def ignoreList_def js_def)

lemma site_important:
  "identifyImportantFiles [js ''/site/pages/a$$b.js''] = emptyImportant\<lparr> pages := [js ''/site/pages/a$$b.js''] \<rparr>"
  by (simp add: identifyImportantFiles_def identifyImportantFile_def emptyImportant_def basename_def
        toLowerCase_def matchesComponent_def matchesPage_def Let_def js_def)

lemma site_analysis:
  "importantFiles (analyzeCodebase siteHost (js ''/site''))
     = Some (emptyImportant\<lparr> pages := [js ''/site/pages/a$$b.js''] \<rparr>)"
  by (simp add: analyzeCodebase_def Let_def site_files site_important)

lemma site_basename: "map basename [js ''/site/pages/a$$b.js''] = [js ''a$$b.js'']"
  by (simp add: basename_def js_def)

lemma dollar_replace:
  "replace (regexOf (js ''{{importantFiles.pages}}'')) (js ''a$$b.js'') (js ''{{importantFiles.pages}}'')
     = js ''a$b.js''"
  by (simp add: replace_def replaceFrom.simps regexOf_def js_def lineTerminator_def)

lemma site_dollar:
  "runPasses (map importantPass (importantEntries (emptyImportant\<lparr> pages := [js ''/site/pages/a$$b.js''] \<rparr>)))
     (js ''{{importantFiles.pages}}'') = js ''a$b.js''"
  by (simp add: importantEntries_def emptyImportant_def importantPass_def runPasses_Cons runPasses_Nil
        orText_def basename_def replace_def replaceFrom.simps regexOf_def js_def lineTerminator_def)

lemma runPasses_plain:
  assumes "list_all bracePat (map fst passes)" "123 \<notin> set t"
  shows "runPasses passes t = t"
proof -
  have "map (run passes) [Text t] = map Some [Text t]" by (simp add: run_Text)
  from run_pieces[OF assms(1) _ this] assms(2) show ?thesis by (simp add: flatten_def)
qed

lemma runPasses_foreign:
  assumes "list_all bracePat (map fst passes)" "wfPiece (Hole h)" "run passes (Hole h) = Some (Hole h)"
  shows "runPasses passes h = h"
proof -
  have "map (run passes) [Hole h] = map Some [Hole h]" by (simp add: assms(3))
  from run_pieces[OF assms(1) _ this] assms(2) show ?thesis by (simp add: flatten_def)
qed

lemma brace_append:
  "list_all bracePat (map fst (xs @ ys)) = (list_all bracePat (map fst xs) \<and> list_all bracePat (map fst ys))"
  by simp

section \<open>Lemmas on the final component of a path and on settled pieces\<close>

lemma basename_final:
  assumes "name \<noteq> []" "47 \<notin> set name" "dir = [] \<or> last dir = 47"
  shows "basename (dir @ name @ replicate k 47) = name"
proof -
  have d: "dropWhile (\<lambda>c. c = 47) (replicate k 47 @ rev name @ rev dir) = rev name @ rev dir"
  proof -
    from assms(1,2) have "last name \<noteq> 47" by (metis last_in_set)
    with assms(1) have "hd (rev name @ rev dir) \<noteq> 47" "rev name @ rev dir \<noteq> []"
      by (simp_all add: hd_append hd_rev)
    then have "dropWhile (\<lambda>c. c = 47) (rev name @ rev dir) = rev name @ rev dir"
      by (cases "rev name @ rev dir") auto
    then show ?thesis by (simp add: dropWhile_append)
  qed
  have t: "takeWhile (\<lambda>c. c \<noteq> 47) (rev name @ rev dir) = rev name"
  proof -
    have "takeWhile (\<lambda>c. c \<noteq> 47) (rev dir) = []"
      using assms(3) by (cases "rev dir") (auto simp: last_rev[symmetric] simp del: last_rev)
    with assms(2) show ?thesis by (simp add: takeWhile_append)
  qed
  show ?thesis by (simp add: basename_def d t)
qed

lemma basename_slashes: "basename (replicate k 47) = []"
  by (simp add: basename_def)

text \<open>
  Every path is of one of the two shapes: slashes only, or a non-empty name without a
  slash, standing alone or after a slash, and followed by slashes only.
\<close>

lemma path_shapes:
  fixes p :: jsstr
  shows "p = replicate (length p) 47
     \<or> (\<exists>dir name k. name \<noteq> [] \<and> 47 \<notin> set name \<and> (dir = [] \<or> last dir = 47)
           \<and> p = dir @ name @ replicate k 47)"
proof (cases "dropWhile (\<lambda>c. c = 47) (rev p) = []")
  case True
  then have "\<forall>x\<in>set p. x = 47" by (simp add: dropWhile_eq_Nil_conv)
  then have "p = replicate (length p) 47" by (simp add: replicate_length_same)
  then show ?thesis ..
next
  case False
  define r where "r = dropWhile (\<lambda>c. c = 47) (rev p)"
  define name where "name = rev (takeWhile (\<lambda>c. c \<noteq> 47) r)"
  define dir where "dir = rev (dropWhile (\<lambda>c. c \<noteq> 47) r)"
  define k where "k = length (takeWhile (\<lambda>c. c = 47) (rev p))"
  have s: "takeWhile (\<lambda>c. c = 47) (rev p) = replicate k 47"
    unfolding k_def by (metis (mono_tags, lifting) replicate_length_same set_takeWhileD)
  have "rev p = replicate k 47 @ r"
    unfolding r_def s[symmetric] by simp
  moreover have "r = rev name @ rev dir" by (simp add: name_def dir_def)
  ultimately have "rev p = replicate k 47 @ rev name @ rev dir" by simp
  then have "rev (rev p) = rev (replicate k 47 @ rev name @ rev dir)" by simp
  then have p: "p = dir @ name @ replicate k 47" by simp
  from False have "hd r \<noteq> 47" unfolding r_def by (metis (full_types) hd_dropWhile)
  with False have n: "name \<noteq> []" unfolding name_def r_def[symmetric] by (cases r) auto
  have m: "47 \<notin> set name" unfolding name_def by (auto dest: set_takeWhileD)
  have d: "dir = [] \<or> last dir = 47"
  proof (cases "dropWhile (\<lambda>c. c \<noteq> 47) r")
    case Nil then show ?thesis by (simp add: dir_def)
  next
    case (Cons x xs)
    then have "x = 47" by (metis (full_types) hd_dropWhile list.sel(1) list.distinct(1))
    with Cons show ?thesis by (simp add: dir_def)
  qed
  from n m d p show ?thesis by blast
qed


lemma settled_render:
  assumes "list_all (settled a q) ps"
  shows "map (run (allPasses a q)) ps = map Some (map (\<lambda>p. the (run (allPasses a q) p)) ps)"
    and "list_all wfPiece ps"
    and "populateTemplate (flatten ps) a q = flatten (map (\<lambda>p. the (run (allPasses a q) p)) ps)"
proof -
  show m: "map (run (allPasses a q)) ps = map Some (map (\<lambda>p. the (run (allPasses a q) p)) ps)"
    using assms by (induction ps) (auto simp: settled_def)
  show wf: "list_all wfPiece ps"
    using assms by (induction ps) (auto simp: settled_def)
  from run_pieces[OF allPasses_brace wf m]
  show "populateTemplate (flatten ps) a q = flatten (map (\<lambda>p. the (run (allPasses a q) p)) ps)"
    by (simp add: populateTemplate_passes)
qed

lemma role_settles:
  assumes "importantFiles a = Some i"
    and "(role, files) \<in> set (importantEntries i)"
    and "clean (join (map basename files) (js '', ''))"
  shows "wfPiece (Hole (js ''{{importantFiles.'' @ js role @ js ''}}''))"
    and "run (allPasses a q) (Hole (js ''{{importantFiles.'' @ js role @ js ''}}''))
         = Some (Text (orText (join (map basename files) (js '', '')) (js ''None found'')))"
proof -
  let ?h = "js ''{{importantFiles.'' @ js role @ js ''}}''"
  have "role = ''entryPoints'' \<or> role = ''components'' \<or> role = ''pages'' \<or> role = ''api''
      \<or> role = ''config'' \<or> role = ''styles''"
    using assms(2) unfolding importantEntries_def by (simp, elim disjE conjE, simp_all)
  then show "wfPiece (Hole ?h)"
    by (elim disjE) (simp_all add: js_def)
  show "run (allPasses a q) (Hole ?h)
         = Some (Text (orText (join (map basename files) (js '', '')) (js ''None found'')))"
    unfolding allPasses_def assms(1) whenPresent.simps
    by (simp add: run_append role_hole_shape foreign_base foreign_technology foreign_structure
          foreign_fileTypes run_Text role_hole[OF assms(2,3), unfolded role_hole_shape])
qed

lemma projectName_settles:
  assumes "clean (projectName a)"
  shows "wfPiece (Hole (js ''{{projectName}}''))"
    and "run (allPasses a q) (Hole (js ''{{projectName}}''))
         = Some (Text (orText (projectName a) (js ''Unknown'')))"
proof -
  show "wfPiece (Hole (js ''{{projectName}}''))" by (simp add: js_def)
  have c: "clean (orText (projectName a) (js ''Unknown''))"
    using assms by (simp add: clean_orText clean_literals)
  show "run (allPasses a q) (Hole (js ''{{projectName}}''))
         = Some (Text (orText (projectName a) (js ''Unknown'')))"
    unfolding allPasses_def using c
    by (simp add: run_append run_blocks(1) fit_lit_Nil fit_lit_Cons js_def run_Text)
qed

lemma blog_files:
  "findAllFiles blogHost (js ''/blog'') (resolve blogHost (js ''/blog''))
     = [js ''/blog/pages/home.js'', js ''/blog/pages/about.js'']"
  by (simp add: blogHost_def plainJoin_def ignoreList_def js_def)

lemma blog_important:
  "identifyImportantFiles [js ''/blog/pages/home.js'', js ''/blog/pages/about.js'']
     = emptyImportant\<lparr> pages := [js ''/blog/pages/home.js'', js ''/blog/pages/about.js''] \<rparr>"
  by (simp add: identifyImportantFiles_def identifyImportantFile_def emptyImportant_def basename_def
        toLowerCase_def matchesComponent_def matchesPage_def Let_def js_def)

lemma blog_analysis:
  "importantFiles (analyzeCodebase blogHost (js ''/blog''))
     = Some (emptyImportant\<lparr> pages := [js ''/blog/pages/home.js'', js ''/blog/pages/about.js''] \<rparr>)"
  "projectName (analyzeCodebase blogHost (js ''/blog'')) = js ''blog''"
  by (simp_all add: analyzeCodebase_def Let_def blog_files blog_important)
     (simp add: basename_def js_def)

lemma blog_names:
  "join (map basename [js ''/blog/pages/home.js'', js ''/blog/pages/about.js'']) (js '', '')
     = js ''home.js, about.js''"
  by (simp add: basename_def js_def)

lemma named_manifest:
  "readFileSync (resolve namedManifestHost (path_join namedManifestHost (js ''/home/user/my-app'') (js ''package.json'')))
     = Inr (js ''manifest'')"
  "JSON_parse namedManifestHost (js ''manifest'') = Some namedManifest"
  "manifestField namedManifest (js ''name'') = Some (JStr (js ''other-name''))"
  by (simp_all add: namedManifestHost_def namedManifest_def plainJoin_def js_def)

section \<open>The claims\<close>

text \<open>
  C2. For every list of file paths, the categoriser puts each path in exactly one bucket:
  the buckets together hold the paths of the input, each as often as the input does, the
  \<open>angular\<close> bucket stays empty (so that eleven buckets are in use), and every path of
  the input is in one and only one bucket.
\<close>

theorem categorizeFiles_partition:
  "mset (concat (buckets (categorizeFiles files))) = mset files \<and>
   angular (categorizeFiles files) = [] \<and>
   (\<forall>p \<in> set files. \<exists>!i. i < length (buckets (categorizeFiles files)) \<and>
        p \<in> set (buckets (categorizeFiles files) ! i))"
proof -
  let ?c = "categorizeFiles files"
  have f: "placed ?c \<and> angular ?c = [] \<and> mset (concat (buckets ?c)) = mset files"
  proof -
    have "angular emptyCategories = []" "mset (concat (buckets emptyCategories)) = {#}"
      by (simp_all add: emptyCategories_def buckets_def)
    with foldl_categorize[OF placed_empty, of files] show ?thesis
      by (simp add: categorizeFiles_def)
  qed
  have u: "\<exists>!i. i < length (buckets ?c) \<and> p \<in> set (buckets ?c ! i)" if "p \<in> set files" for p
  proof -
    from that f have "p \<in> set (concat (buckets ?c))"
      by (metis set_mset_mset)
    then obtain b where "b \<in> set (buckets ?c)" "p \<in> set b"
      by auto
    then obtain i where "i < length (buckets ?c)" "p \<in> set (buckets ?c ! i)"
      by (metis in_set_conv_nth)
    moreover have "j = bucketOf p" if "j < length (buckets ?c)" "p \<in> set (buckets ?c ! j)" for j
      using that f by (auto simp: placed_def length_buckets)
    ultimately show ?thesis by metis
  qed
  from f u show ?thesis by blast
qed

theorem categorizeFiles_partition_witness:
  "js ''src/app.js'' \<in> set [js ''src/app.js'', js ''README.md''] \<and>
   (\<exists>!i. i < length (buckets (categorizeFiles [js ''src/app.js'', js ''README.md''])) \<and>
      js ''src/app.js'' \<in> set (buckets (categorizeFiles [js ''src/app.js'', js ''README.md'']) ! i)) \<and>
   javascript (categorizeFiles [js ''src/app.js'', js ''README.md'']) = [js ''src/app.js''] \<and>
   documentation (categorizeFiles [js ''src/app.js'', js ''README.md'']) = [js ''README.md'']"
proof -
  have m: "js ''src/app.js'' \<in> set [js ''src/app.js'', js ''README.md'']" by simp
  have e: "categorizeFiles [js ''src/app.js'', js ''README.md''] =
      emptyCategories\<lparr> javascript := [js ''src/app.js''], documentation := [js ''README.md''] \<rparr>"
    by (simp add: categorizeFiles_def categorizeFile_def emptyCategories_def basename_def extname_def
        toLowerCase_def js_def Let_def)
  from categorizeFiles_partition[of "[js ''src/app.js'', js ''README.md'']"] m
  have "\<exists>!i. i < length (buckets (categorizeFiles [js ''src/app.js'', js ''README.md''])) \<and>
      js ''src/app.js'' \<in> set (buckets (categorizeFiles [js ''src/app.js'', js ''README.md'']) ! i)"
    by blast
  with m e show ?thesis by simp
qed

text \<open>
  C1, as the code has it. For an empty project directory without a readable manifest,
  whose base name is clean: \<open>totalFiles\<close> is 0, every bucket is empty, the framework is
  the fallback label \<open>Vanilla JavaScript\<close> and the language is \<open>Unknown\<close>; the document
  rendered from the default template begins with the overview block, in which the
  framework line reads \<open>Vanilla JavaScript\<close> and the language line \<open>Unknown\<close>.
\<close>

theorem empty_project:
  assumes "resolve h root = Some (Dir [])"
    and "readFileSync (resolve h (path_join h root (js ''package.json''))) = Inl e"
    and "clean (basename root)"
  shows "totalFiles (analyzeCodebase h root) = 0
       \<and> fileTypes (analyzeCodebase h root) = Some emptyCategories
       \<and> map_option framework (technology (analyzeCodebase h root)) = Some (js ''Vanilla JavaScript'')
       \<and> map_option language (technology (analyzeCodebase h root)) = Some (js ''Unknown'')
       \<and> (\<exists>rest. populateTemplate getDefaultTemplate (analyzeCodebase h root) userQuestion =
             flatten (overviewLines (Text (orText (basename root) (js ''Unknown''))) (Text (js ''0''))
               (Text (js ''Vanilla JavaScript'')) (Text (js ''Unknown'')) (Text (js ''Unknown''))
               (Text (js ''Unknown'')) (Text (js ''None detected''))) @ rest)"
proof -
  have f: "findAllFiles h root (resolve h root) = []" using assms(1) by simp
  have a: "analyzeCodebase h root =
           full (basename root) 0 emptyCategories emptyImportant defaultRecord vanillaProfile noDirectories"
    by (rule analyzeCodebase_no_files[OF f assms(2)])
  have r: "\<exists>rest. populateTemplate getDefaultTemplate (analyzeCodebase h root) userQuestion =
             flatten (overviewLines (Text (orText (basename root) (js ''Unknown''))) (Text (js ''0''))
               (Text (js ''Vanilla JavaScript'')) (Text (js ''Unknown'')) (Text (js ''Unknown''))
               (Text (js ''Unknown'')) (Text (js ''None detected''))) @ rest"
    unfolding empty_project_render[OF f assms(2,3)] flatten_def map_append concat_append by blast
  show ?thesis using r by (simp add: a vanillaProfile_def)
qed

text \<open>The empty directory \<open>/tmp/empty\<close> meets the hypotheses.\<close>

theorem empty_project_witness:
  "resolve emptyHost (js ''/tmp/empty'') = Some (Dir [])
   \<and> readFileSync (resolve emptyHost (path_join emptyHost (js ''/tmp/empty'') (js ''package.json'')))
       = Inl ENOENT
   \<and> clean (basename (js ''/tmp/empty''))
   \<and> totalFiles (analyzeCodebase emptyHost (js ''/tmp/empty'')) = 0
   \<and> fileTypes (analyzeCodebase emptyHost (js ''/tmp/empty'')) = Some emptyCategories
   \<and> map_option framework (technology (analyzeCodebase emptyHost (js ''/tmp/empty'')))
       = Some (js ''Vanilla JavaScript'')"
proof -
  have 1: "resolve emptyHost (js ''/tmp/empty'') = Some (Dir [])"
    by (simp add: emptyHost_def)
  have 2: "readFileSync (resolve emptyHost (path_join emptyHost (js ''/tmp/empty'') (js ''package.json'')))
       = Inl ENOENT"
    by (simp add: emptyHost_def plainJoin_def js_def)
  have 3: "clean (basename (js ''/tmp/empty''))"
    by (simp add: basename_tmp_empty) (simp add: clean_def js_def)
  from empty_project[OF 1 2 3] 1 2 3 show ?thesis by simp
qed

text \<open>
  The whole document for the empty directory \<open>/tmp/empty\<close>: the framework line reads
  \<open>Vanilla JavaScript\<close>, not \<open>Unknown\<close>, and the lines of the important files keep their
  placeholders (\<open>importantLines\<close> is the section of the template itself).
\<close>

theorem empty_project_counterexample:
  "populateTemplate getDefaultTemplate (analyzeCodebase emptyHost (js ''/tmp/empty'')) [] =
     flatten (overviewLines (Text (js ''empty'')) (Text (js ''0''))
         (Text (js ''Vanilla JavaScript'')) (Text (js ''Unknown'')) (Text (js ''Unknown''))
         (Text (js ''Unknown'')) (Text (js ''None detected''))
       @ stackLines @ structureLines
       @ breakdownLines (Text (js ''0'')) (Text (js ''0'')) (Text (js ''0'')) (Text (js ''0''))
           (Text (js ''0'')) (Text (js ''0'')) (Text (js ''0'')) (Text (js ''0'')) (Text (js ''0''))
           (Text (js ''0''))
       @ importantLines @ dependencyLines @ requestLines)
   \<and> js ''Vanilla JavaScript'' \<noteq> js ''Unknown''"
proof -
  have 1: "findAllFiles emptyHost (js ''/tmp/empty'') (resolve emptyHost (js ''/tmp/empty'')) = []"
    by (simp add: emptyHost_def)
  have 2: "readFileSync (resolve emptyHost (path_join emptyHost (js ''/tmp/empty'') (js ''package.json'')))
       = Inl ENOENT"
    by (simp add: emptyHost_def plainJoin_def js_def)
  have 3: "clean (basename (js ''/tmp/empty''))"
    by (simp add: basename_tmp_empty) (simp add: clean_def js_def)
  have 4: "orText (js ''empty'') (js ''Unknown'') = js ''empty''"
    by (simp add: orText_def js_def)
  have 5: "js ''Vanilla JavaScript'' \<noteq> js ''Unknown''"
    by (simp add: js_def)
  from empty_project_render[OF 1 2 3, of "[]"] 5 show ?thesis
    by (simp only: basename_tmp_empty 4 simp_thms)
qed

text \<open>
  C4. The reader of the manifest is a total function: when the manifest is missing,
  cannot be read, or does not parse, it returns the same record of defaults, the three
  maps empty and the module type \<open>commonjs\<close>.
\<close>

theorem analyzeDependencies_degrades:
  assumes "resolve h (path_join h root (js ''package.json'')) = None
         \<or> resolve h (path_join h root (js ''package.json'')) = Some (File None)
         \<or> (\<exists>t. resolve h (path_join h root (js ''package.json'')) = Some (File (Some t))
                \<and> JSON_parse h t = None)"
  shows "analyzeDependencies h root =
           \<lparr> dependencyRecord.dependencies = JObj [], devDependencies = JObj [], scripts = JObj [],
             type = JStr (js ''commonjs'') \<rparr>"
  using assms
  by (auto simp: analyzeDependencies_def readPackageJson_def defaultRecord_def Let_def)

text \<open>One host for each of the three failures.\<close>

theorem analyzeDependencies_degrades_witness:
  "resolve nowhereHost (path_join nowhereHost (js ''/app'') (js ''package.json'')) = None
   \<and> analyzeDependencies nowhereHost (js ''/app'') = defaultRecord
   \<and> resolve (brokenManifestHost None) (path_join (brokenManifestHost None) (js ''/app'') (js ''package.json''))
       = Some (File None)
   \<and> analyzeDependencies (brokenManifestHost None) (js ''/app'') = defaultRecord
   \<and> resolve (brokenManifestHost (Some (js ''{ not json''))) 
         (path_join (brokenManifestHost (Some (js ''{ not json''))) (js ''/app'') (js ''package.json''))
       = Some (File (Some (js ''{ not json'')))
   \<and> JSON_parse (brokenManifestHost (Some (js ''{ not json''))) (js ''{ not json'') = None
   \<and> analyzeDependencies (brokenManifestHost (Some (js ''{ not json''))) (js ''/app'') = defaultRecord"
proof -
  have 1: "resolve nowhereHost (path_join nowhereHost (js ''/app'') (js ''package.json'')) = None"
    by (simp add: nowhereHost_def)
  have 2: "resolve (brokenManifestHost c) (path_join (brokenManifestHost c) (js ''/app'') (js ''package.json''))
       = Some (File c)" for c
    by (simp add: brokenManifestHost_def plainJoin_def js_def)
  have 3: "JSON_parse (brokenManifestHost c) t = None" for c t
    by (simp add: brokenManifestHost_def)
  from analyzeDependencies_degrades[of nowhereHost "js ''/app''"]
    analyzeDependencies_degrades[of "brokenManifestHost None" "js ''/app''"]
    analyzeDependencies_degrades[of "brokenManifestHost (Some (js ''{ not json''))" "js ''/app''"]
    1 2 3
  show ?thesis by (simp add: defaultRecord_def)
qed

text \<open>
  C8, where the code departs from it: for the task types \<open>security\<close> and \<open>testing\<close> the
  specialised prompt is the base prompt, nothing being appended.
\<close>

theorem no_security_or_testing_block:
  "generateSpecializedPrompt templates nativeText a (js ''security'') description
     = generatePrompt templates a description (js ''default'')
   \<and> generateSpecializedPrompt templates nativeText a (js ''testing'') description
     = generatePrompt templates a description (js ''default'')"
proof -
  have s: "map_of taskSpecificInstructions (js ''security'') = None"
    "map_of taskSpecificInstructions (js ''testing'') = None"
    by (simp_all add: taskSpecificInstructions_def js_def)
  have p: "js ''security'' \<notin> set objectPrototypeNames" "js ''testing'' \<notin> set objectPrototypeNames"
    by (simp_all add: objectPrototypeNames_def js_def)
  show ?thesis
    by (simp add: generateSpecializedPrompt_def s p split: sum.splits)
qed

text \<open>
  C9, as the code has it. The entry point \<open>analyzeAndGeneratePrompt\<close> fails with the error
  \<open>Project path does not exist\<close> when the root does not exist, and analyses nothing. The
  analysis itself does not fail: for a root that does not exist or is no directory it
  returns a record with no file, every bucket and every role empty.
\<close>

theorem missing_root:
  "(\<not> existsSync (resolve h root) \<longrightarrow>
      analyzeAndGeneratePrompt h templates root userQuestion templateType
        = Inl (Error (js ''Project path does not exist: '' @ root)))
   \<and> ((\<forall>items. resolve h root \<noteq> Some (Dir items)) \<longrightarrow>
        totalFiles (analyzeCodebase h root) = 0
        \<and> fileTypes (analyzeCodebase h root) = Some emptyCategories
        \<and> importantFiles (analyzeCodebase h root) = Some emptyImportant)"
proof -
  have "findAllFiles h root (resolve h root) = []" if "\<forall>items. resolve h root \<noteq> Some (Dir items)"
  proof (cases "resolve h root")
    case None then show ?thesis by simp
  next
    case (Some n) with that show ?thesis by (cases n) auto
  qed
  then show ?thesis
    by (simp add: analyzeAndGeneratePrompt_def analyzeCodebase_def Let_def categorizeFiles_def
          identifyImportantFiles_def)
qed

text \<open>The root \<open>/no/such/dir\<close> of the empty file system.\<close>

theorem missing_root_witness:
  "\<not> existsSync (resolve nowhereHost (js ''/no/such/dir''))
   \<and> analyzeAndGeneratePrompt nowhereHost Map.empty (js ''/no/such/dir'') [] (js ''default'')
        = Inl (Error (js ''Project path does not exist: '' @ js ''/no/such/dir''))
   \<and> totalFiles (analyzeCodebase nowhereHost (js ''/no/such/dir'')) = 0"
proof -
  have 1: "\<not> existsSync (resolve nowhereHost (js ''/no/such/dir''))"
    by (simp add: nowhereHost_def)
  have 2: "\<forall>items. resolve nowhereHost (js ''/no/such/dir'') \<noteq> Some (Dir items)"
    by (simp add: nowhereHost_def)
  from missing_root[of nowhereHost "js ''/no/such/dir''" Map.empty "[]" "js ''default''"] 1 2
  show ?thesis by simp
qed

text \<open>
  The analysis of the root \<open>/no/such/dir\<close>, which does not exist, returns this record.
\<close>

theorem missing_root_counterexample:
  "analyzeCodebase nowhereHost (js ''/no/such/dir'') =
     full (js ''dir'') 0 emptyCategories emptyImportant defaultRecord vanillaProfile noDirectories"
proof -
  have 1: "findAllFiles nowhereHost (js ''/no/such/dir'') (resolve nowhereHost (js ''/no/such/dir'')) = []"
    by (simp add: nowhereHost_def)
  have 2: "readFileSync (resolve nowhereHost (path_join nowhereHost (js ''/no/such/dir'') (js ''package.json'')))
       = Inl ENOENT"
    by (simp add: nowhereHost_def)
  show ?thesis
    unfolding analyzeCodebase_no_files[OF 1 2] basename_no_such_dir ..
qed

text \<open>
  C10. For every host, \<open>projectName\<close> is the final component of the root path: for a
  path that ends, before any number of trailing slashes, in a non-empty name without a
  slash (the name standing alone or right after a slash), it is that name; for a path of
  slashes only it is empty. Two hosts, whatever their manifests declare, give the same
  name for the same path.
\<close>

theorem projectName_is_basename:
  assumes "name \<noteq> []" and "47 \<notin> set name" and "dir = [] \<or> last dir = 47"
  shows "projectName (analyzeCodebase h (dir @ name @ replicate k 47)) = name
         \<and> projectName (analyzeCodebase h (replicate k 47)) = []
         \<and> projectName (analyzeCodebase h' projectPath) = projectName (analyzeCodebase h projectPath)"
  using basename_final[OF assms] basename_slashes
  by (simp add: analyzeCodebase_def Let_def)


text \<open>
  The root \<open>/home/user/my-app\<close>, whose manifest has the name \<open>other-name\<close>, and the same
  path with three trailing slashes.
\<close>

theorem projectName_is_basename_witness:
  "js ''my-app'' \<noteq> [] \<and> 47 \<notin> set (js ''my-app'')
   \<and> (js ''/home/user/'' = [] \<or> last (js ''/home/user/'') = 47)
   \<and> readFileSync (resolve namedManifestHost
         (path_join namedManifestHost (js ''/home/user/my-app'') (js ''package.json'')))
       = Inr (js ''manifest'')
   \<and> JSON_parse namedManifestHost (js ''manifest'') = Some namedManifest
   \<and> manifestField namedManifest (js ''name'') = Some (JStr (js ''other-name''))
   \<and> projectName (analyzeCodebase namedManifestHost (js ''/home/user/my-app'')) = js ''my-app''
   \<and> projectName (analyzeCodebase emptyHost (js ''/home/user/my-app///'')) = js ''my-app''"
proof -
  have 1: "js ''my-app'' \<noteq> []" "47 \<notin> set (js ''my-app'')"
    "js ''/home/user/'' = [] \<or> last (js ''/home/user/'') = 47"
    by (simp_all add: js_def)
  have p0: "js ''/home/user/'' @ js ''my-app'' @ replicate 0 47 = js ''/home/user/my-app''"
    and p3: "js ''/home/user/'' @ js ''my-app'' @ replicate 3 47 = js ''/home/user/my-app///''"
    by (simp_all add: js_def numeral_3_eq_3)
  from projectName_is_basename[OF 1, of namedManifestHost 0]
    projectName_is_basename[OF 1, of emptyHost 3] 1 named_manifest
  show ?thesis unfolding p0 p3 by (simp only: simp_thms)
qed


text \<open>
  C3, as the code has it. The framework is the label of the first name of the table whose
  value in the merged dependency object is truthy, the fallback label when there is none;
  in the merged object an entry of \<open>devDependencies\<close> overrides the entry of
  \<open>dependencies\<close> of the same name; and whenever the merged value of \<open>next\<close> is truthy,
  the framework is \<open>Next.js\<close>, whatever else is declared.
\<close>

theorem framework_precedence:
  "framework (detectTechnology c deprec)
     = firstPresent (spread2 (dependencyRecord.dependencies deprec) (devDependencies deprec))
   \<and> has (spread2 (JObj rt) (JObj dev)) name =
       truthyOpt (case map_of dev (js name) of Some v \<Rightarrow> Some v | None \<Rightarrow> map_of rt (js name))
   \<and> (has (spread2 (dependencyRecord.dependencies deprec) (devDependencies deprec)) ''next'' \<longrightarrow>
        framework (detectTechnology c deprec) = js ''Next.js'')"
  by (simp add: detectTechnology_def Let_def detectFramework_firstPresent has_spread2)
     (simp add: firstPresent_def frameworkTable_def)

text \<open>A manifest with \<open>next\<close> at version 14.1.0 and \<open>react\<close>.\<close>

theorem framework_precedence_witness:
  "has (spread2 (dependencyRecord.dependencies (nextAndReact (js ''14.1.0'')))
         (devDependencies (nextAndReact (js ''14.1.0'')))) ''next''
   \<and> has (spread2 (dependencyRecord.dependencies (nextAndReact (js ''14.1.0'')))
         (devDependencies (nextAndReact (js ''14.1.0'')))) ''react''
   \<and> framework (detectTechnology emptyCategories (nextAndReact (js ''14.1.0''))) = js ''Next.js''"
proof -
  have n: "js ''14.1.0'' \<noteq> []" by (simp add: js_def)
  have h: "has (spread2 (dependencyRecord.dependencies (nextAndReact (js ''14.1.0'')))
         (devDependencies (nextAndReact (js ''14.1.0'')))) ''next''"
    by (simp add: has_nextAndReact n)
  have r: "has (spread2 (dependencyRecord.dependencies (nextAndReact (js ''14.1.0'')))
         (devDependencies (nextAndReact (js ''14.1.0'')))) ''react''"
    by (rule has_nextAndReact)
  from framework_precedence[of emptyCategories "nextAndReact (js ''14.1.0'')"] h
  have "framework (detectTechnology emptyCategories (nextAndReact (js ''14.1.0''))) = js ''Next.js''"
    by blast
  with h r show ?thesis by blast
qed

text \<open>
  A manifest that names both \<open>next\<close> and \<open>react\<close>, the version text of \<open>next\<close> being
  empty: the framework is \<open>React\<close>.
\<close>

theorem framework_precedence_counterexample:
  "map_of [(js ''next'', JStr []), (js ''react'', JStr (js ''^18.2.0''))] (js ''next'') = Some (JStr [])
   \<and> framework (detectTechnology emptyCategories (nextAndReact [])) = js ''React''"
  by (simp add: detectTechnology_def Let_def detectFramework_def has_nextAndReact)

text \<open>
  C5, where the code departs from it: the two dependency lines of the default template
  are rendered as they stand, whatever the dependency record holds. Each pattern of the
  source asks for two apostrophes on either side of the comma, the template has one.
\<close>

theorem dependency_lines_stay:
  "populateTemplate (flatten dependencyLines) (full n k c i d tech st) q = flatten dependencyLines"
  using run_pieces[OF allPasses_brace wf_sections(4) dependency_run]
  by (simp add: populateTemplate_passes)

text \<open>
  C6, where the code departs from it: the technology-stack lines of the default template,
  whose placeholders have the shape \<open>{{technology.hasReact ? 'Yes' : 'No'}}\<close>, are rendered
  as they stand, whatever the flags of the profile are. Only the plain form
  \<open>{{technology.hasReact}}\<close> is a pattern of the renderer.
\<close>

theorem stack_lines_stay:
  "populateTemplate (flatten stackLines) (full n k c i d tech st) q = flatten stackLines"
  using run_pieces[OF allPasses_brace wf_sections(1) stack_run]
  by (simp add: populateTemplate_passes)

text \<open>
  C7, as the code has it. Take a template that is a list of settled pieces, the plain
  placeholder of a role, and a second list of settled pieces. If the base names of the
  files of the role, joined by a comma and a space, have neither an opening brace nor a
  dollar sign, the renderer puts this joined text in the place of the placeholder, and
  \<open>None found\<close> when the list is empty (the joined text is then empty); the pieces before
  and after are rendered as they are on their own.
\<close>

theorem important_placeholder:
  assumes "importantFiles a = Some i"
    and "(role, files) \<in> set (importantEntries i)"
    and "clean (join (map basename files) (js '', ''))"
    and "list_all (settled a userQuestion) ps" and "list_all (settled a userQuestion) qs"
  shows "populateTemplate (flatten ps @ js ''{{importantFiles.'' @ js role @ js ''}}'' @ flatten qs) a userQuestion
         = populateTemplate (flatten ps) a userQuestion
           @ orText (join (map basename files) (js '', '')) (js ''None found'')
           @ populateTemplate (flatten qs) a userQuestion"
proof -
  let ?h = "js ''{{importantFiles.'' @ js role @ js ''}}''"
  let ?v = "orText (join (map basename files) (js '', '')) (js ''None found'')"
  let ?r = "\<lambda>p. the (run (allPasses a userQuestion) p)"
  note h = role_settles(1)[OF assms(1-3)] role_settles(2)[OF assms(1-3), of userQuestion]
  note p = settled_render[OF assms(4)]
  note q = settled_render[OF assms(5)]
  have m: "map (run (allPasses a userQuestion)) (ps @ Hole ?h # qs)
           = map Some (map ?r ps @ Text ?v # map ?r qs)"
    using p(1) q(1) h(2) by simp
  have wf: "list_all wfPiece (ps @ Hole ?h # qs)"
    using p(2) q(2) h(1) by simp
  have "populateTemplate (flatten (ps @ Hole ?h # qs)) a userQuestion
        = flatten (map ?r ps @ Text ?v # map ?r qs)"
    using run_pieces[OF allPasses_brace wf m] by (simp add: populateTemplate_passes)
  then show ?thesis
    unfolding p(3) q(3) by (simp add: flatten_def)
qed

text \<open>
  The project with the pages \<open>home.js\<close> and \<open>about.js\<close>: a heading with the project
  name, the line of the pages and the line of the API files.
\<close>

theorem important_placeholder_witness:
  "importantFiles (analyzeCodebase blogHost (js ''/blog''))
     = Some (emptyImportant\<lparr> pages := [js ''/blog/pages/home.js'', js ''/blog/pages/about.js''] \<rparr>)
   \<and> (''pages'', [js ''/blog/pages/home.js'', js ''/blog/pages/about.js''])
       \<in> set (importantEntries (emptyImportant\<lparr> pages := [js ''/blog/pages/home.js'', js ''/blog/pages/about.js''] \<rparr>))
   \<and> clean (join (map basename [js ''/blog/pages/home.js'', js ''/blog/pages/about.js'']) (js '', ''))
   \<and> list_all (settled (analyzeCodebase blogHost (js ''/blog'')) [])
        [Text (js ''# ''), Hole (js ''{{projectName}}''), Text (js ''\<newline>**Pages**: '')]
   \<and> list_all (settled (analyzeCodebase blogHost (js ''/blog'')) [])
        [Text (js ''\<newline>**API Files**: ''), Hole (js ''{{importantFiles.api}}''), Text (js ''\<newline>'')]
   \<and> populateTemplate
        (js ''# {{projectName}}\<newline>**Pages**: {{importantFiles.pages}}\<newline>**API Files**: {{importantFiles.api}}\<newline>'')
        (analyzeCodebase blogHost (js ''/blog'')) []
       = js ''# blog\<newline>**Pages**: home.js, about.js\<newline>**API Files**: None found\<newline>''
   \<and> (''api'', [])
       \<in> set (importantEntries (emptyImportant\<lparr> pages := [js ''/blog/pages/home.js'', js ''/blog/pages/about.js''] \<rparr>))
   \<and> clean (join (map basename []) (js '', ''))
   \<and> list_all (settled (analyzeCodebase blogHost (js ''/blog'')) (js ''why?'')) [Text (js ''**API Files**: '')]
   \<and> list_all (settled (analyzeCodebase blogHost (js ''/blog'')) (js ''why?'')) [Text (js ''\<newline>'')]
   \<and> populateTemplate (js ''**API Files**: {{importantFiles.api}}\<newline>'')
        (analyzeCodebase blogHost (js ''/blog'')) (js ''why?'')
       = js ''**API Files**: None found\<newline>''"
proof -
  let ?a = "analyzeCodebase blogHost (js ''/blog'')"
  let ?i = "emptyImportant\<lparr> pages := [js ''/blog/pages/home.js'', js ''/blog/pages/about.js''] \<rparr>"
  let ?ps = "[Text (js ''# ''), Hole (js ''{{projectName}}''), Text (js ''\<newline>**Pages**: '')]"
  let ?qs = "[Text (js ''\<newline>**API Files**: ''), Hole (js ''{{importantFiles.api}}''), Text (js ''\<newline>'')]"
  have 1: "importantFiles ?a = Some ?i" by (rule blog_analysis(1))
  have 2: "(''pages'', [js ''/blog/pages/home.js'', js ''/blog/pages/about.js'']) \<in> set (importantEntries ?i)"
    by (simp add: importantEntries_def emptyImportant_def)
  have 3: "clean (join (map basename [js ''/blog/pages/home.js'', js ''/blog/pages/about.js'']) (js '', ''))"
    unfolding blog_names by (simp add: clean_def js_def)
  have api: "(''api'', []) \<in> set (importantEntries ?i)"
    by (simp add: importantEntries_def emptyImportant_def)
  have c0: "clean (join (map basename []) (js '', ''))" by (simp add: clean_def)
  have cn: "clean (projectName ?a)" unfolding blog_analysis(2) by (simp add: clean_def js_def)
  note n = projectName_settles(1) projectName_settles(2)[OF cn, of "[]", unfolded blog_analysis(2)]
  note r = role_settles(1)[OF 1 api c0] role_settles(2)[OF 1 api c0, of "[]"]
  have rp: "run (allPasses ?a []) (Hole (js ''{{projectName}}'')) = Some (Text (js ''blog''))"
    using n(2) by (simp add: orText_def js_def)
  have ra: "run (allPasses ?a []) (Hole (js ''{{importantFiles.api}}'')) = Some (Text (js ''None found''))"
    using r(2) by (simp add: orText_def js_def)
  have wa: "wfPiece (Hole (js ''{{importantFiles.api}}''))" by (simp add: js_def)
  have 4: "list_all (settled ?a []) ?ps"
    by (simp add: settled_def run_Text rp n(1)) (simp add: js_def)
  have 5: "list_all (settled ?a []) ?qs"
    by (simp add: settled_def run_Text ra wa) (simp add: js_def)
  have p: "populateTemplate (flatten ?ps) ?a [] = js ''# blog\<newline>**Pages**: ''"
    unfolding settled_render(3)[OF 4] by (simp add: run_Text rp) (simp add: flatten_def js_def)
  have q: "populateTemplate (flatten ?qs) ?a [] = js ''\<newline>**API Files**: None found\<newline>''"
    unfolding settled_render(3)[OF 5] by (simp add: run_Text ra) (simp add: flatten_def js_def)
  have t: "flatten ?ps @ js ''{{importantFiles.'' @ js ''pages'' @ js ''}}'' @ flatten ?qs
      = js ''# {{projectName}}\<newline>**Pages**: {{importantFiles.pages}}\<newline>**API Files**: {{importantFiles.api}}\<newline>''"
    by (simp add: flatten_def js_def)
  have v: "js ''# blog\<newline>**Pages**: '' @ orText (js ''home.js, about.js'') (js ''None found'')
           @ js ''\<newline>**API Files**: None found\<newline>''
      = js ''# blog\<newline>**Pages**: home.js, about.js\<newline>**API Files**: None found\<newline>''"
    by (simp add: orText_def js_def)
  from important_placeholder[OF 1 2 3 4 5]
  have "populateTemplate
        (js ''# {{projectName}}\<newline>**Pages**: {{importantFiles.pages}}\<newline>**API Files**: {{importantFiles.api}}\<newline>'')
        ?a [] = js ''# blog\<newline>**Pages**: home.js, about.js\<newline>**API Files**: None found\<newline>''"
    unfolding t p q blog_names v .
  note first = this
  have 6: "list_all (settled ?a (js ''why?'')) [Text (js ''**API Files**: '')]"
    and 7: "list_all (settled ?a (js ''why?'')) [Text (js ''\<newline>'')]"
    by (simp_all add: settled_def run_Text) (simp_all add: js_def)
  have p2: "populateTemplate (flatten [Text (js ''**API Files**: '')]) ?a (js ''why?'') = js ''**API Files**: ''"
    unfolding settled_render(3)[OF 6] by (simp add: run_Text flatten_def)
  have q2: "populateTemplate (flatten [Text (js ''\<newline>'')]) ?a (js ''why?'') = js ''\<newline>''"
    unfolding settled_render(3)[OF 7] by (simp add: run_Text flatten_def)
  have t2: "flatten [Text (js ''**API Files**: '')] @ js ''{{importantFiles.'' @ js ''api'' @ js ''}}''
        @ flatten [Text (js ''\<newline>'')]
      = js ''**API Files**: {{importantFiles.api}}\<newline>''"
    by (simp add: flatten_def js_def)
  have v2: "js ''**API Files**: '' @ orText (join (map basename []) (js '', '')) (js ''None found'') @ js ''\<newline>''
      = js ''**API Files**: None found\<newline>''"
    by (simp add: orText_def js_def)
  from important_placeholder[OF 1 api c0 6 7]
  have second: "populateTemplate (js ''**API Files**: {{importantFiles.api}}\<newline>'') ?a (js ''why?'')
       = js ''**API Files**: None found\<newline>''"
    unfolding t2 p2 q2 v2 .
  from first second 1 2 3 4 5 6 7 api c0 show ?thesis by (simp only: simp_thms)
qed

text \<open>
  The project whose only file is \<open>pages/a$$b.js\<close>: the joined base names are
  \<open>a$$b.js\<close>, the rendered text is \<open>a$b.js\<close>, since \<open>$$\<close> in a replacement text
  stands for one dollar sign.
\<close>

theorem important_placeholder_counterexample:
  "importantFiles (analyzeCodebase siteHost (js ''/site''))
     = Some (emptyImportant\<lparr> pages := [js ''/site/pages/a$$b.js''] \<rparr>)
   \<and> join (map basename [js ''/site/pages/a$$b.js'']) (js '', '') = js ''a$$b.js''
   \<and> populateTemplate (js ''{{importantFiles.pages}}'') (analyzeCodebase siteHost (js ''/site'')) []
     = js ''a$b.js''
   \<and> js ''a$b.js'' \<noteq> js ''a$$b.js''"
proof -
  let ?a = "analyzeCodebase siteHost (js ''/site'')"
  let ?h = "js ''{{importantFiles.pages}}''"
  obtain n k c d tech st where a: "?a = full n k c (emptyImportant\<lparr> pages := [js ''/site/pages/a$$b.js''] \<rparr>) d tech st"
    by (simp add: analyzeCodebase_def Let_def site_files site_important)
  have shape: "?h = 123 # 123 # 105 # js ''mportantFiles.pages}}''" by (simp add: js_def)
  have wfh: "wfPiece (Hole ?h)" by (simp add: js_def)
  have br: "list_all bracePat (map fst (allPasses ?a []))" by (rule allPasses_brace)
  define pre where "pre = basePasses ?a [] @ technologyPasses tech @ structurePasses st
               @ map fileTypePass (fileTypeEntries c)"
  have parts: "allPasses ?a [] =
      pre @ map importantPass (importantEntries (emptyImportant\<lparr> pages := [js ''/site/pages/a$$b.js''] \<rparr>))
      @ dependencyPasses d"
    by (simp add: allPasses_def a pre_def)
  have r1: "run pre (Hole ?h) = Some (Hole ?h)"
    unfolding shape pre_def
    using foreign_technology[of 105 "Some tech"] foreign_structure[of 105 "Some st"]
      foreign_fileTypes[of 105 "Some c"]
    by (simp add: run_append foreign_base)
  have s1: "runPasses pre ?h = ?h"
    using br unfolding parts brace_append by (intro runPasses_foreign wfh r1) simp
  have s3: "runPasses (dependencyPasses d) (js ''a$b.js'') = js ''a$b.js''"
    using br unfolding parts brace_append by (intro runPasses_plain) (simp_all add: js_def)
  have "populateTemplate ?h ?a [] = js ''a$b.js''"
    unfolding populateTemplate_passes parts runPasses_append s1 site_dollar s3 ..
  moreover have "join (map basename [js ''/site/pages/a$$b.js'']) (js '', '') = js ''a$$b.js''"
    using site_basename by simp
  moreover have "js ''a$b.js'' \<noteq> js ''a$$b.js''" by (simp add: js_def)
  ultimately show ?thesis using site_analysis by simp
qed

end
